theory Spec2Isabelle
  imports Main "HOL-Library.Multiset"
begin

section \<open>Collaborator calls\<close>

text \<open>
  A Go error value is modelled as \<open>string option\<close>: \<open>None\<close> is \<open>nil\<close>, \<open>Some msg\<close> an
  error with that message. A call into a collaborator (the TDLib client, the state manager,
  the helper functions of the package that are outside the extractor) either comes back with
  its results or raises a runtime fault (a Go panic).
\<close>

type_synonym err = "string option"

datatype 'a call = Returned 'a | Panicked

text \<open>
  The part of the TDLib client that \<open>fetchfilefromtelegram\<close> uses. \<open>GetRemoteFile\<close> returns
  \<open>(*File, error)\<close>: the file pointer (\<open>None\<close> is a nil pointer, otherwise its \<open>Id\<close>) and the
  error. \<open>DownloadFile\<close> returns \<open>(*File, error)\<close>: of the file only \<open>Local.Path\<close> is read
  (\<open>None\<close> when the file or its \<open>Local\<close> part is nil).
\<close>

record client =
  GetRemoteFile :: "string \<Rightarrow> (int option \<times> err) call"
  DownloadFile :: "int \<Rightarrow> (string option \<times> err) call"

section \<open>fetchfilefromtelegram\<close>

text \<open>
  The function has one deferred handler that recovers every panic of its body; the result is
  unnamed, so a recovered panic returns the zero value, the empty string. The client is a
  pointer: \<open>None\<close> is the nil client, on which the first method call panics.
\<close>

definition fetchfilefromtelegram_body :: "client option \<Rightarrow> string \<Rightarrow> string call" where
  "fetchfilefromtelegram_body tdlibClient downloadid =
     (case tdlibClient of
        None \<Rightarrow> Panicked
      | Some c \<Rightarrow>
         (case GetRemoteFile c downloadid of
            Panicked \<Rightarrow> Panicked
          | Returned (f, e) \<Rightarrow>
             (case e of
                Some _ \<Rightarrow> Returned ''''
              | None \<Rightarrow>
                 (case f of
                    None \<Rightarrow> Panicked
                  | Some fid \<Rightarrow>
                     (case DownloadFile c fid of
                        Panicked \<Rightarrow> Panicked
                      | Returned (d, e') \<Rightarrow>
                         (case e' of
                            Some _ \<Rightarrow> Returned ''''
                          | None \<Rightarrow>
                             (case d of
                                None \<Rightarrow> Panicked
                              | Some path \<Rightarrow>
                                 if path = '''' then Returned '''' else Returned path)))))))"

definition fetchfilefromtelegram :: "client option \<Rightarrow> string \<Rightarrow> string" where
  "fetchfilefromtelegram tdlibClient downloadid =
     (case fetchfilefromtelegram_body tdlibClient downloadid of
        Panicked \<Rightarrow> ''''
      | Returned path \<Rightarrow> path)"

section \<open>Messages\<close>

text \<open>
  The parts of a TDLib message that \<open>ParseMessage\<close> reads. A pointer that the code tests
  against nil is an \<open>option\<close>. A chain of field selections through pointers that the code does
  not test, such as \<open>content.Photo.Sizes[0].Photo.Remote.Id\<close>, is one \<open>option\<close>: \<open>None\<close> when
  a link of the chain is nil (or the index is out of range), so that reading it panics.
\<close>

record reply_info =
  ReplyCount :: int

datatype reaction_type =
    ReactionTypeEmoji string
  | ReactionTypeCustomEmoji int
  | ReactionTypePaid

record message_reaction =
  Type :: "reaction_type option"
  TotalCount :: int

text \<open>
  \<open>Reactions\<close> is the pointer \<open>InteractionInfo.Reactions\<close>, holding the slice
  \<open>Reactions.Reactions\<close> of pointers to reaction entries (\<open>None\<close>: a nil entry).
\<close>

record interaction_info =
  ReplyInfo :: "reply_info option"
  Reactions :: "message_reaction option list option"

record video =
  video_Thumbnail :: "string option option"
  video_Video :: "string option"

record message_video =
  Video :: "video option"
  video_Caption :: "string option"

record document =
  FileName :: string
  document_Thumbnail :: "string option"
  document_Document :: "string option"

text \<open>
  The message content is an interface value with one concrete type per kind. For every kind
  but video the content pointer itself is taken to be non-nil; \<open>MessageVideo None\<close> is the
  nil \<open>*MessageVideo\<close>, which \<open>processMessageSafely\<close> tests. \<open>MessageOther t\<close> stands for every
  content type that the switch does not name, \<open>t\<close> being its \<open>MessageContentType()\<close>.
\<close>

datatype message_content =
    MessageText "string option"
  | MessageVideo "message_video option"
  | MessagePhoto "string option" "string option"
  | MessageAnimation "string option" "string option"
  | MessageAnimatedEmoji string
  | MessagePoll "string option"
  | MessageGiveaway "string option"
  | MessagePaidMedia "string option"
  | MessageSticker "string option"
  | MessageGiveawayWinners
  | MessageGiveawayCompleted
  | MessageVideoNote "string option" "string option"
  | MessageDocument "document option"
  | MessageOther string

fun MessageContentType :: "message_content \<Rightarrow> string" where
  "MessageContentType (MessageText _) = ''messageText''"
| "MessageContentType (MessageVideo _) = ''messageVideo''"
| "MessageContentType (MessagePhoto _ _) = ''messagePhoto''"
| "MessageContentType (MessageAnimation _ _) = ''messageAnimation''"
| "MessageContentType (MessageAnimatedEmoji _) = ''messageAnimatedEmoji''"
| "MessageContentType (MessagePoll _) = ''messagePoll''"
| "MessageContentType (MessageGiveaway _) = ''messageGiveaway''"
| "MessageContentType (MessagePaidMedia _) = ''messagePaidMedia''"
| "MessageContentType (MessageSticker _) = ''messageSticker''"
| "MessageContentType MessageGiveawayWinners = ''messageGiveawayWinners''"
| "MessageContentType MessageGiveawayCompleted = ''messageGiveawayCompleted''"
| "MessageContentType (MessageVideoNote _ _) = ''messageVideoNote''"
| "MessageContentType (MessageDocument _) = ''messageDocument''"
| "MessageContentType (MessageOther t) = t"

text \<open>\<open>Content\<close> is \<open>None\<close> for the nil interface value.\<close>

record message =
  Id :: int
  ChatId :: int
  Date :: int
  EditDate :: int
  InteractionInfo :: "interaction_info option"
  Content :: "message_content option"

record message_link =
  Link :: string

record chat =
  chat_Id :: int
  Title :: string

record supergroup_full_info =
  MemberCount :: int

section \<open>The Post model\<close>

text \<open>
  A \<open>time.Time\<close> is either the zero value or built by \<open>time.Unix(sec, 0)\<close>.
\<close>

datatype gotime = ZeroTime | UnixTime int

record comment =
  comment_Text :: string

record engagement_data =
  FollowerCount :: int
  FollowingCount :: int
  ed_LikeCount :: int
  PostCount :: int
  ed_ViewsCount :: int
  ed_CommentCount :: int
  ed_ShareCount :: int

record channel_data =
  cd_ChannelID :: int
  cd_ChannelName :: string
  ChannelProfileImage :: string
  ChannelEngagementData :: engagement_data
  ChannelURLExternal :: string
  ChannelURL :: string

record post =
  PostLink :: string
  ChannelID :: int
  PostUID :: string
  URL :: string
  PublishedAt :: gotime
  CreatedAt :: gotime
  LanguageCode :: string
  Engagement :: int
  ViewCount :: int
  LikeCount :: int
  ShareCount :: int
  CommentCount :: int
  ChannelName :: string
  Description :: string
  IsAd :: bool
  PostType :: "string list"
  TranscriptText :: string
  ImageText :: string
  PlatformName :: string
  LikesCount :: int
  SharesCount :: int
  CommentsCount :: int
  ViewsCount :: int
  SearchableText :: string
  AllText :: string
  ThumbURL :: string
  MediaURL :: string
  ChannelData :: channel_data
  Comments :: "comment list"
  Reactions_of :: "string \<rightharpoonup> int"

definition empty_engagement_data :: engagement_data where
  "empty_engagement_data =
     \<lparr>FollowerCount = 0, FollowingCount = 0, ed_LikeCount = 0, PostCount = 0,
      ed_ViewsCount = 0, ed_CommentCount = 0, ed_ShareCount = 0\<rparr>"

definition empty_channel_data :: channel_data where
  "empty_channel_data =
     \<lparr>cd_ChannelID = 0, cd_ChannelName = '''', ChannelProfileImage = '''',
      ChannelEngagementData = empty_engagement_data, ChannelURLExternal = '''',
      ChannelURL = ''''\<rparr>"

text \<open>\<open>model.Post{}\<close>, the zero value: every field zero, the slices and the map nil.\<close>

definition empty_post :: post where
  "empty_post =
     \<lparr>PostLink = '''', ChannelID = 0, PostUID = '''', URL = '''', PublishedAt = ZeroTime,
      CreatedAt = ZeroTime, LanguageCode = '''', Engagement = 0, ViewCount = 0, LikeCount = 0,
      ShareCount = 0, CommentCount = 0, ChannelName = '''', Description = '''', IsAd = False,
      PostType = [], TranscriptText = '''', ImageText = '''', PlatformName = '''',
      LikesCount = 0, SharesCount = 0, CommentsCount = 0, ViewsCount = 0, SearchableText = '''',
      AllText = '''', ThumbURL = '''', MediaURL = '''', ChannelData = empty_channel_data,
      Comments = [], Reactions_of = Map.empty\<rparr>"

section \<open>Collaborators of ParseMessage\<close>

text \<open>
  The state manager's two methods that the extractor calls, each returning an error, and the
  package's helper functions whose code is outside the extractor. \<open>Year\<close> is
  \<open>time.Unix(sec, 0).Year()\<close>, the calendar year of a Unix time in the zone of the process.
\<close>

record state_manager =
  UploadBlobFileAndDelete :: "string \<Rightarrow> string \<Rightarrow> string \<Rightarrow> string \<Rightarrow> err call"
  StoreData :: "string \<Rightarrow> string \<Rightarrow> post \<Rightarrow> err call"

record helpers =
  Year :: "int \<Rightarrow> int"
  GetMessageComments :: "client option \<Rightarrow> int \<Rightarrow> int \<Rightarrow> string \<Rightarrow> (comment list \<times> err) call"
  GetViewCount :: "message \<Rightarrow> string \<Rightarrow> int call"
  GetMessageShareCount :: "client option \<Rightarrow> int \<Rightarrow> int \<Rightarrow> string \<Rightarrow> (int \<times> err) call"

section \<open>ParseMessage\<close>

text \<open>
  The state of one call: the named results \<open>post\<close> and \<open>err\<close>, the number of deferred
  recover handlers registered after the first one, the local variables, and the calls made to
  the platform and the state manager so far (\<open>fetched\<close>: the ids given to
  \<open>fetchfilefromtelegram\<close>; \<open>uploaded\<close>: the arguments of \<open>UploadBlobFileAndDelete\<close>;
  \<open>stored\<close>: the arguments of \<open>StoreData\<close>).
\<close>

record pm_state =
  post_var :: post
  err_var :: err
  inner_defers :: nat
  messageNumber :: string
  comments :: "comment list"
  description :: string
  thumbnailPath :: string
  videoPath :: string
  reactions :: "string \<rightharpoonup> int"
  fetched :: "string list"
  uploaded :: "(string \<times> string \<times> string \<times> string) list"
  stored :: "(string \<times> string \<times> post) list"

definition init_state :: pm_state where
  "init_state =
     \<lparr>post_var = empty_post, err_var = None, inner_defers = 0, messageNumber = '''',
      comments = [], description = '''', thumbnailPath = '''', videoPath = '''',
      reactions = Map.empty, fetched = [], uploaded = [], stored = []\<rparr>"

text \<open>
  A part of the body either falls through to the next statement, executes a \<open>return\<close>
  (the named results are then set in the state), or panics.
\<close>

datatype flow = Continue pm_state | Return pm_state | Panic pm_state

definition and_then :: "flow \<Rightarrow> (pm_state \<Rightarrow> flow) \<Rightarrow> flow" where
  "and_then f k = (case f of Continue s \<Rightarrow> k s | Return s \<Rightarrow> Return s | Panic s \<Rightarrow> Panic s)"

text \<open>\<open>strings.Split(s, sep)\<close> for a separator of one character.\<close>

fun Split :: "string \<Rightarrow> char \<Rightarrow> string list" where
  "Split [] c = [[]]"
| "Split (x # xs) c =
     (if x = c then [] # Split xs c
      else (case Split xs c of [] \<Rightarrow> [[x]] | y # ys \<Rightarrow> (x # y) # ys))"

definition processMessageSafely ::
  "message_video option \<Rightarrow> client option \<Rightarrow> (string \<times> string \<times> string \<times> err) call" where
  "processMessageSafely mymsg tdlibClient =
     (let invalid = Returned ('''', '''', '''', Some ''invalid or corrupt message structure'') in
      case mymsg of
        None \<Rightarrow> invalid
      | Some mv \<Rightarrow>
         (case Video mv of
            None \<Rightarrow> invalid
          | Some v \<Rightarrow>
             (case video_Thumbnail v of
                None \<Rightarrow> invalid
              | Some th \<Rightarrow>
                 (case th of
                    None \<Rightarrow> Panicked
                  | Some tp \<Rightarrow>
                     (case video_Video v of
                        None \<Rightarrow> Panicked
                      | Some vp \<Rightarrow>
                         (case video_Caption mv of
                            None \<Rightarrow> Panicked
                          | Some d \<Rightarrow> Returned (tp, vp, d, None)))))))"

text \<open>
  The two statements that follow each other at every media kind:
  \<open>path := fetchfilefromtelegram(tdlibClient, id)\<close> and
  \<open>err = sm.UploadBlobFileAndDelete(crawlid, channelName, mlr.Link, path)\<close>. The error is
  at most logged.
\<close>

definition fetch_and_upload ::
  "state_manager \<Rightarrow> client option \<Rightarrow> string \<Rightarrow> string \<Rightarrow> string \<Rightarrow> string \<Rightarrow> pm_state \<Rightarrow> flow" where
  "fetch_and_upload sm tdlibClient crawlid channelName link fileid s =
     (let path = fetchfilefromtelegram tdlibClient fileid;
          s1 = s\<lparr>fetched := fetched s @ [fileid],
                 uploaded := uploaded s @ [(crawlid, channelName, link, path)]\<rparr>
      in case UploadBlobFileAndDelete sm crawlid channelName link path of
           Panicked \<Rightarrow> Panic s1
         | Returned e \<Rightarrow> Continue (s1\<lparr>err_var := e\<rparr>))"

text \<open>
  Lines 334--337: the publish date and the cutoff. \<open>message\<close> is a pointer; reading
  \<open>message.Date\<close> of the nil message panics.
\<close>

definition check_cutoff :: "helpers \<Rightarrow> message option \<Rightarrow> pm_state \<Rightarrow> flow" where
  "check_cutoff h message s =
     (case message of
        None \<Rightarrow> Panic s
      | Some m \<Rightarrow>
          if Year h (Date m) < 2018
          then Return (s\<lparr>post_var := empty_post, err_var := None\<rparr>)
          else Continue s)"

text \<open>Lines 339--345: the message number is the last part of the link split at \<open>/\<close>.\<close>

definition message_number :: "message_link option \<Rightarrow> pm_state \<Rightarrow> flow" where
  "message_number mlr s =
     (case mlr of
        None \<Rightarrow> Panic s
      | Some l \<Rightarrow>
          (let linkParts = Split (Link l) (CHR ''/'') in
           if length linkParts > 0
           then Continue (s\<lparr>messageNumber := linkParts ! (length linkParts - 1)\<rparr>)
           else Return (s\<lparr>post_var := empty_post, err_var := None\<rparr>)))"

text \<open>
  Lines 347--360: the comments. When the message has reply information, a second recover
  handler is deferred; it only logs. The arguments of \<open>GetMessageComments\<close> are evaluated
  first, so a nil \<open>chat\<close> panics at \<open>chat.Id\<close>.
\<close>

definition fetch_comments ::
  "helpers \<Rightarrow> message \<Rightarrow> chat option \<Rightarrow> string \<Rightarrow> client option \<Rightarrow> pm_state \<Rightarrow> flow" where
  "fetch_comments h m cht channelName tdlibClient s =
     (case InteractionInfo m of
        None \<Rightarrow> Continue s
      | Some ii \<Rightarrow>
         (case ReplyInfo ii of
            None \<Rightarrow> Continue s
          | Some ri \<Rightarrow>
             (let s1 = s\<lparr>inner_defers := Suc (inner_defers s)\<rparr> in
              if ReplyCount ri > 0
              then (case cht of
                      None \<Rightarrow> Panic s1
                    | Some ch \<Rightarrow>
                       (case GetMessageComments h tdlibClient (chat_Id ch) (Id m) channelName of
                          Panicked \<Rightarrow> Panic s1
                        | Returned (cs, e) \<Rightarrow> Continue (s1\<lparr>comments := cs, err_var := e\<rparr>)))
              else Continue s1)))"

text \<open>
  Lines 362--444: the switch on the content's type. \<open>link\<close> is \<open>mlr.Link\<close>. In the cases
  for video notes and documents the second download is given \<open>thumbnailPath\<close>, as the
  source has it.
\<close>

definition dispatch_content ::
  "state_manager \<Rightarrow> client option \<Rightarrow> string \<Rightarrow> string \<Rightarrow> string \<Rightarrow> message_content option
     \<Rightarrow> pm_state \<Rightarrow> flow" where
  "dispatch_content sm tdlibClient crawlid channelName link content s =
     (case content of
        Some (MessageText t) \<Rightarrow>
          (case t of None \<Rightarrow> Panic s | Some txt \<Rightarrow> Continue (s\<lparr>description := txt\<rparr>))
      | Some (MessageVideo mv) \<Rightarrow>
          (case processMessageSafely mv tdlibClient of
             Panicked \<Rightarrow> Panic s
           | Returned (tp, vp, d, _) \<Rightarrow>
               (let s1 = s\<lparr>thumbnailPath := tp, videoPath := vp, description := d\<rparr> in
                and_then (fetch_and_upload sm tdlibClient crawlid channelName link (thumbnailPath s1) s1)
                  (\<lambda>s2. fetch_and_upload sm tdlibClient crawlid channelName link (videoPath s2) s2)))
      | Some (MessagePhoto cap pid) \<Rightarrow>
          (case cap of
             None \<Rightarrow> Panic s
           | Some d \<Rightarrow>
              (case pid of
                 None \<Rightarrow> Panic s
               | Some tp \<Rightarrow>
                  (let s1 = s\<lparr>description := d, thumbnailPath := tp\<rparr> in
                   fetch_and_upload sm tdlibClient crawlid channelName link (thumbnailPath s1) s1)))
      | Some (MessageAnimation cap th) \<Rightarrow>
          (case cap of
             None \<Rightarrow> Panic s
           | Some d \<Rightarrow>
              (case th of
                 None \<Rightarrow> Panic s
               | Some tp \<Rightarrow>
                  (let s1 = s\<lparr>description := d, thumbnailPath := tp\<rparr> in
                   fetch_and_upload sm tdlibClient crawlid channelName link (thumbnailPath s1) s1)))
      | Some (MessageAnimatedEmoji e) \<Rightarrow> Continue (s\<lparr>description := e\<rparr>)
      | Some (MessagePoll q) \<Rightarrow>
          (case q of None \<Rightarrow> Panic s | Some d \<Rightarrow> Continue (s\<lparr>description := d\<rparr>))
      | Some (MessageGiveaway pz) \<Rightarrow>
          (case pz of None \<Rightarrow> Panic s | Some d \<Rightarrow> Continue (s\<lparr>description := d\<rparr>))
      | Some (MessagePaidMedia cap) \<Rightarrow>
          (case cap of None \<Rightarrow> Panic s | Some d \<Rightarrow> Continue (s\<lparr>description := d\<rparr>))
      | Some (MessageSticker st) \<Rightarrow>
          (case st of
             None \<Rightarrow> Panic s
           | Some tp \<Rightarrow>
              (let s1 = s\<lparr>thumbnailPath := tp\<rparr> in
               fetch_and_upload sm tdlibClient crawlid channelName link (thumbnailPath s1) s1))
      | Some MessageGiveawayWinners \<Rightarrow> Continue s
      | Some MessageGiveawayCompleted \<Rightarrow> Continue s
      | Some (MessageVideoNote th vid) \<Rightarrow>
          (case th of
             None \<Rightarrow> Panic s
           | Some tp \<Rightarrow>
              (let s1 = s\<lparr>thumbnailPath := tp\<rparr> in
               and_then (fetch_and_upload sm tdlibClient crawlid channelName link (thumbnailPath s1) s1)
                 (\<lambda>s2. case vid of
                          None \<Rightarrow> Panic s2
                        | Some vp \<Rightarrow>
                           (let s3 = s2\<lparr>videoPath := vp\<rparr> in
                            fetch_and_upload sm tdlibClient crawlid channelName link
                              (thumbnailPath s3) s3))))
      | Some (MessageDocument doc) \<Rightarrow>
          (case doc of
             None \<Rightarrow> Panic s
           | Some d \<Rightarrow>
              (case document_Thumbnail d of
                 None \<Rightarrow> Panic s
               | Some tp \<Rightarrow>
                  (let s1 = s\<lparr>description := FileName d, thumbnailPath := tp\<rparr> in
                   and_then (fetch_and_upload sm tdlibClient crawlid channelName link (thumbnailPath s1) s1)
                     (\<lambda>s2. case document_Document d of
                              None \<Rightarrow> Panic s2
                            | Some vp \<Rightarrow>
                               (let s3 = s2\<lparr>videoPath := vp\<rparr> in
                                fetch_and_upload sm tdlibClient crawlid channelName link
                                  (thumbnailPath s3) s3)))))
      | Some (MessageOther _) \<Rightarrow> Continue s
      | None \<Rightarrow> Continue s)"

text \<open>
  Lines 446--460: the reactions. The loop over the entries writes
  \<open>reactions[emoji] = int(reaction.TotalCount)\<close> for an entry whose type is an emoji, skips an
  entry with a nil or another type, and panics at a nil entry (\<open>None\<close> as loop result).
\<close>

fun reactions_loop ::
  "message_reaction option list \<Rightarrow> (string \<rightharpoonup> int) \<Rightarrow> (string \<rightharpoonup> int) option" where
  "reactions_loop [] acc = Some acc"
| "reactions_loop (None # rs) acc = None"
| "reactions_loop (Some r # rs) acc =
     (case Type r of
        Some (ReactionTypeEmoji e) \<Rightarrow> reactions_loop rs (acc(e \<mapsto> TotalCount r))
      | _ \<Rightarrow> reactions_loop rs acc)"

definition collect_reactions :: "message \<Rightarrow> pm_state \<Rightarrow> flow" where
  "collect_reactions m s =
     (let s0 = s\<lparr>reactions := Map.empty\<rparr> in
      case InteractionInfo m of
        None \<Rightarrow> Continue s0
      | Some ii \<Rightarrow>
         (case Reactions ii of
            None \<Rightarrow> Continue s0
          | Some rs \<Rightarrow>
             if length rs > 0
             then (let s1 = s0\<lparr>inner_defers := Suc (inner_defers s0)\<rparr> in
                   case reactions_loop rs (reactions s1) of
                     None \<Rightarrow> Panic s1
                   | Some acc \<Rightarrow> Continue (s1\<lparr>reactions := acc\<rparr>))
             else Continue s0))"

text \<open>
  Lines 462--519: the post is assembled, assigned to the named result, handed to
  \<open>StoreData\<close> (its error is logged), and returned with a nil error. The calls and the
  pointer reads happen in the order of the source. The compiled code builds the composite
  literal in place in the named result \<open>post\<close>, field by field in the order of the literal:
  when reading \<open>supergroupInfo.MemberCount\<close> panics, the fields that stand before it in
  the literal are written already (\<open>written\<close> below), and the later ones are still zero.
\<close>

definition assemble_and_store ::
  "helpers \<Rightarrow> state_manager \<Rightarrow> client option \<Rightarrow> string \<Rightarrow> message \<Rightarrow> string \<Rightarrow> chat option
     \<Rightarrow> supergroup_full_info option \<Rightarrow> int \<Rightarrow> int \<Rightarrow> string \<Rightarrow> pm_state \<Rightarrow> flow" where
  "assemble_and_store h sm tdlibClient crawlid m link cht supergroupInfo postcount viewcount
       channelName s =
     (case Content m of
        None \<Rightarrow> Panic s
      | Some content \<Rightarrow>
         (let posttype = [MessageContentType content];
              createdAt = UnixTime (EditDate m)
          in case GetViewCount h m channelName of
               Panicked \<Rightarrow> Panic s
             | Returned vc \<Rightarrow>
                (let postUid = messageNumber s @ ''-'' @ channelName in
                 case cht of
                   None \<Rightarrow> Panic s
                 | Some ch \<Rightarrow>
                    (case GetMessageShareCount h tdlibClient (chat_Id ch) (Id m) channelName of
                       Panicked \<Rightarrow> Panic s
                     | Returned (sharecount, _) \<Rightarrow>
                        (let written =
                           \<lparr>PostLink = link, ChannelID = ChatId m, PostUID = postUid,
                            URL = link, PublishedAt = UnixTime (Date m),
                            CreatedAt = createdAt, LanguageCode = ''RU'', Engagement = vc,
                            ViewCount = vc, LikeCount = 0, ShareCount = sharecount,
                            CommentCount = int (length (comments s)),
                            ChannelName = Title ch, Description = description s,
                            IsAd = False, PostType = posttype, TranscriptText = '''',
                            ImageText = '''', PlatformName = ''Telegram'', LikesCount = 0,
                            SharesCount = sharecount,
                            CommentsCount = int (length (comments s)), ViewsCount = vc,
                            SearchableText = '''', AllText = '''',
                            ThumbURL = thumbnailPath s, MediaURL = videoPath s,
                            ChannelData =
                              \<lparr>cd_ChannelID = ChatId m, cd_ChannelName = Title ch,
                               ChannelProfileImage = '''',
                               ChannelEngagementData = empty_engagement_data,
                               ChannelURLExternal = '''', ChannelURL = ''''\<rparr>,
                            Comments = [], Reactions_of = Map.empty\<rparr>
                         in case supergroupInfo of
                           None \<Rightarrow> Panic (s\<lparr>post_var := written\<rparr>)
                         | Some sgi \<Rightarrow>
                            (let p = written
                                  \<lparr>ChannelData :=
                                     \<lparr>cd_ChannelID = ChatId m, cd_ChannelName = Title ch,
                                      ChannelProfileImage = '''',
                                      ChannelEngagementData =
                                        \<lparr>FollowerCount = MemberCount sgi, FollowingCount = 0,
                                         ed_LikeCount = 0, PostCount = postcount,
                                         ed_ViewsCount = viewcount, ed_CommentCount = 0,
                                         ed_ShareCount = 0\<rparr>,
                                      ChannelURLExternal = ''https://t.me/c/'' @ channelName,
                                      ChannelURL = ''''\<rparr>,
                                   Comments := comments s, Reactions_of := reactions s\<rparr>;
                               s1 = s\<lparr>post_var := p,
                                      stored := stored s @ [(crawlid, channelName, p)]\<rparr>
                             in case StoreData sm crawlid channelName p of
                                  Panicked \<Rightarrow> Panic s1
                                | Returned e \<Rightarrow>
                                    Return (s1\<lparr>post_var := p, err_var := None\<rparr>)))))))"

text \<open>
  The body of \<open>ParseMessage\<close>, the statements above in sequence. The parameter
  \<open>supergroup\<close> of the source is never read and is left out.
\<close>

definition ParseMessage_body ::
  "helpers \<Rightarrow> string \<Rightarrow> message option \<Rightarrow> message_link option \<Rightarrow> chat option
     \<Rightarrow> supergroup_full_info option \<Rightarrow> int \<Rightarrow> int \<Rightarrow> string \<Rightarrow> client option
     \<Rightarrow> state_manager \<Rightarrow> flow" where
  "ParseMessage_body h crawlid message mlr cht supergroupInfo postcount viewcount channelName
       tdlibClient sm =
     and_then (check_cutoff h message init_state) (\<lambda>s1.
     and_then (message_number mlr s1) (\<lambda>s2.
       case (message, mlr) of
         (Some m, Some l) \<Rightarrow>
           and_then (fetch_comments h m cht channelName tdlibClient s2) (\<lambda>s3.
           and_then (dispatch_content sm tdlibClient crawlid channelName (Link l) (Content m) s3)
             (\<lambda>s4.
           and_then (collect_reactions m s4) (\<lambda>s5.
             assemble_and_store h sm tdlibClient crawlid m (Link l) cht supergroupInfo
               postcount viewcount channelName s5)))
       | _ \<Rightarrow> Panic s2))"

text \<open>
  The deferred handlers run last-registered first when the body returns or panics. The
  first handler that calls \<open>recover\<close> during a panic stops it: a handler registered for the
  comments or the reactions only logs, so the named results go out as they stand; only when
  no such handler was registered does the handler of lines 326--332 see the panic and set
  \<open>err\<close>. When the body returns, no handler changes a result. A body that falls off its
  end does not occur (\<open>assemble_and_store\<close> always returns or panics).
\<close>

definition run_deferred :: "flow \<Rightarrow> post \<times> err \<times> pm_state" where
  "run_deferred f =
     (case f of
        Return s \<Rightarrow> (post_var s, err_var s, s)
      | Continue s \<Rightarrow> (post_var s, err_var s, s)
      | Panic s \<Rightarrow>
          if inner_defers s > 0 then (post_var s, err_var s, s)
          else (post_var s, Some ''failed to parse message'',
                s\<lparr>err_var := Some ''failed to parse message''\<rparr>))"

definition ParseMessage ::
  "helpers \<Rightarrow> string \<Rightarrow> message option \<Rightarrow> message_link option \<Rightarrow> chat option
     \<Rightarrow> supergroup_full_info option \<Rightarrow> int \<Rightarrow> int \<Rightarrow> string \<Rightarrow> client option
     \<Rightarrow> state_manager \<Rightarrow> post \<times> err \<times> pm_state" where
  "ParseMessage h crawlid message mlr cht supergroupInfo postcount viewcount channelName
       tdlibClient sm =
     run_deferred (ParseMessage_body h crawlid message mlr cht supergroupInfo postcount
       viewcount channelName tdlibClient sm)"

text \<open>The state in which a part of the body ends, however it ends.\<close>

definition flow_state :: "flow \<Rightarrow> pm_state" where
  "flow_state f = (case f of Continue s \<Rightarrow> s | Return s \<Rightarrow> s | Panic s \<Rightarrow> s)"

subsection \<open>Concrete collaborators and messages\<close>

text \<open>
  The calendar year of a Unix time in UTC: \<open>time.Unix(sec, 0).Year()\<close> of a process whose
  zone is UTC. Days are counted from 0000-03-01 in eras of 400 years; \<open>civil_yoe\<close> is the
  year of the era of a day of the era, \<open>civil_mp\<close> the month counted from March.
\<close>

definition civil_yoe :: "int \<Rightarrow> int" where
  "civil_yoe doe = (doe - doe div 1460 + doe div 36524 - doe div 146096) div 365"

definition civil_mp :: "int \<Rightarrow> int \<Rightarrow> int" where
  "civil_mp doe yoe = (5 * (doe - (365 * yoe + yoe div 4 - yoe div 100)) + 2) div 153"

definition utc_year :: "int \<Rightarrow> int" where
  "utc_year sec =
     (let z = sec div 86400 + 719468;
          era = z div 146097;
          doe = z mod 146097;
          yoe = civil_yoe doe
      in yoe + era * 400 + (if civil_mp doe yoe < 10 then 0 else 1))"

text \<open>
  Collaborators that always succeed: a client that resolves every remote id to file 1 and
  downloads it to one local path, a state manager whose uploads and stores return nil, and
  helpers that report no comments, no views and no shares.
\<close>

definition example_client :: client where
  "example_client =
     \<lparr>GetRemoteFile = (\<lambda>_. Returned (Some 1, None)),
      DownloadFile = (\<lambda>_. Returned (Some ''/tmp/file'', None))\<rparr>"

definition failing_client :: client where
  "failing_client =
     \<lparr>GetRemoteFile = (\<lambda>_. Returned (None, Some ''file not found'')),
      DownloadFile = (\<lambda>_. Returned (Some ''/tmp/file'', None))\<rparr>"

definition example_sm :: state_manager where
  "example_sm =
     \<lparr>UploadBlobFileAndDelete = (\<lambda>_ _ _ _. Returned None),
      StoreData = (\<lambda>_ _ _. Returned None)\<rparr>"

definition example_helpers :: helpers where
  "example_helpers =
     \<lparr>Year = utc_year,
      GetMessageComments = (\<lambda>_ _ _ _. Returned ([], None)),
      GetViewCount = (\<lambda>_ _. Returned 0),
      GetMessageShareCount = (\<lambda>_ _ _ _. Returned (0, None))\<rparr>"

text \<open>A message of 2021-01-01 (UTC) with the given content and interaction information.\<close>

definition example_message :: "message_content \<Rightarrow> interaction_info option \<Rightarrow> message" where
  "example_message c ii =
     \<lparr>Id = 42, ChatId = 7, Date = 1609459200, EditDate = 0, InteractionInfo = ii,
      Content = Some c\<rparr>"

definition example_chat :: chat where
  "example_chat = \<lparr>chat_Id = 7, Title = ''Channel''\<rparr>"

definition example_info :: supergroup_full_info where
  "example_info = \<lparr>MemberCount = 100\<rparr>"

subsection \<open>Reading the reaction entries\<close>

text \<open>
  The pairs of emoji and count of the entries whose type is an emoji, in the order of the
  entries. \<open>reaction_sum\<close> is the aggregate in the words of the specification: the sum of the
  counts of all entries with the given emoji.
\<close>

fun emoji_counts :: "message_reaction option list \<Rightarrow> (string \<times> int) list" where
  "emoji_counts [] = []"
| "emoji_counts (None # rs) = emoji_counts rs"
| "emoji_counts (Some r # rs) =
     (case Type r of
        Some (ReactionTypeEmoji e) \<Rightarrow> (e, TotalCount r) # emoji_counts rs
      | _ \<Rightarrow> emoji_counts rs)"

definition reaction_sum :: "message_reaction option list \<Rightarrow> string \<Rightarrow> int" where
  "reaction_sum rs e = sum_list (map snd (filter (\<lambda>p. fst p = e) (emoji_counts rs)))"

text \<open>The reaction entries of a message (none when a pointer on the way is nil).\<close>

definition reaction_entries :: "message \<Rightarrow> message_reaction option list" where
  "reaction_entries m =
     (case InteractionInfo m of
        None \<Rightarrow> []
      | Some ii \<Rightarrow> (case Reactions ii of None \<Rightarrow> [] | Some rs \<Rightarrow> rs))"

text \<open>
  Helpers whose comment fetch returns an error, and a document message that has replies
  and no thumbnail.
\<close>

definition comment_error_helpers :: helpers where
  "comment_error_helpers =
     example_helpers\<lparr>GetMessageComments := (\<lambda>_ _ _ _. Returned ([], Some ''timeout''))\<rparr>"

definition replies_info :: interaction_info where
  "replies_info = \<lparr>ReplyInfo = Some \<lparr>ReplyCount = 3\<rparr>, Reactions = None\<rparr>"

definition emoji_reaction :: "string \<Rightarrow> int \<Rightarrow> message_reaction option" where
  "emoji_reaction e n = Some \<lparr>Type = Some (ReactionTypeEmoji e), TotalCount = n\<rparr>"

definition example_link :: message_link where
  "example_link = \<lparr>Link = ''https://t.me/chan/42''\<rparr>"

text \<open>A state manager whose uploads fail.\<close>

definition failing_sm :: state_manager where
  "failing_sm =
     \<lparr>UploadBlobFileAndDelete = (\<lambda>_ _ _ _. Returned (Some ''upload failed'')),
      StoreData = (\<lambda>_ _ _. Returned None)\<rparr>"

section \<open>The page loop of launch\<close>

text \<open>
  A page of the frontier and a layer, as the state package declares them: \<open>Layer.Pages\<close> is
  a slice of \<open>Page\<close> values, the frontier \<open>list\<close> a slice of pointers to layers. A layer is
  identified with its index in \<open>list\<close> (no two entries of the slice are taken to be the same
  pointer). \<open>Depth\<close> is a Go \<open>int\<close> of 64 bits: its values lie between \<open>- 2^63\<close> and
  \<open>2^63 - 1\<close>, and \<open>l.Depth + 1\<close> wraps around at the largest of them.
\<close>

record page =
  page_URL :: string
  Status :: string
  Timestamp :: gotime

record layer =
  Depth :: int
  Pages :: "page list"

text \<open>
  What the loop cannot decide itself is given by a world. \<open>crawl_Run n p\<close> is the outcome of
  \<open>crawl.Run\<close> on page \<open>p\<close> when \<open>n\<close> calls went before: outlinks (a slice of page pointers,
  \<open>None\<close> a nil pointer), an error, or a panic. \<open>map_order k vs\<close> is the order in which
  the \<open>k\<close>-th \<open>range\<close> over a Go map yields its values, \<open>vs\<close> being the values of the map
  listed in some fixed order; Go leaves the order of a \<open>range\<close> open. \<open>now n\<close> is \<open>time.Now()\<close> at
  the \<open>n\<close>-th visit.
\<close>

datatype run_result = Outlinks "page option list" | RunFailed string | RunPanicked

record world =
  crawl_Run :: "nat \<Rightarrow> page \<Rightarrow> run_result"
  map_order :: "nat \<Rightarrow> page list \<Rightarrow> page list"
  now :: "nat \<Rightarrow> int"

text \<open>
  The state of the loop: the frontier \<open>list\<close>, the set \<open>seenURLs\<close>, the loop indices, and two
  traces: the pages on which \<open>crawl.Run\<close> was called, and the frontiers handed to
  \<open>StoreLayers\<close>.
\<close>

record crawl_state =
  layers :: "layer list"
  seenURLs :: "string set"
  idx_i :: nat
  idx_j :: nat
  visits :: "page list"
  checkpoints :: "layer list list"

text \<open>
  Lines 136--146: the outlinks that are new. \<open>acc\<close> holds the values of the map
  \<open>uniqueOutlinks\<close> in the order of insertion. Reading \<open>ol.URL\<close> of a nil outlink panics; the
  URLs entered into \<open>seenURLs\<close> before stay there.
\<close>

fun unique_outlinks ::
  "page option list \<Rightarrow> string set \<Rightarrow> page list \<Rightarrow> string set \<times> page list option" where
  "unique_outlinks [] seen acc = (seen, Some acc)"
| "unique_outlinks (None # ols) seen acc = (seen, None)"
| "unique_outlinks (Some ol # ols) seen acc =
     (if page_URL ol \<in> seen then unique_outlinks ols seen acc
      else unique_outlinks ols (insert (page_URL ol) seen) (acc @ [ol]))"

text \<open>
  Lines 161--164: the values of the map \<open>uniquePages\<close> after \<open>uniquePages[page.URL] = page\<close>
  for every page of the list in turn: of the pages with one URL the last one stays.
\<close>

fun uniquePages :: "page list \<Rightarrow> page list" where
  "uniquePages [] = []"
| "uniquePages (p # ps) =
     (if page_URL p \<in> page_URL ` set ps then uniquePages ps else p # uniquePages ps)"

text \<open>The sum of two Go \<open>int\<close>s, as the 64-bit addition gives it.\<close>

definition wrap_int :: "int \<Rightarrow> int" where
  "wrap_int x = (x + 9223372036854775808) mod 18446744073709551616 - 9223372036854775808"

text \<open>
  Lines 153--178: the new pages go to the layer at index \<open>l.Depth + 1\<close> when the frontier is
  longer than that, and to a new last layer otherwise. A negative index panics (\<open>None\<close>);
  so does the index that \<open>l.Depth + 1\<close> wraps to at the largest depth.
\<close>

definition merge_outlinks ::
  "world \<Rightarrow> nat \<Rightarrow> layer \<Rightarrow> page list \<Rightarrow> layer list \<Rightarrow> layer list option" where
  "merge_outlinks w n l pag ls =
     (if length pag > 0 then
        (let d = wrap_int (Depth l + 1) in
         if int (length ls) > d then
           if d < 0 then None
           else
             (let k = nat d;
                  existing = ls ! k
              in Some (ls[k := existing\<lparr>Pages :=
                   map_order w (2 * n + 1) (uniquePages (Pages existing @ pag))\<rparr>]))
         else Some (ls @ [\<lparr>Depth = d, Pages = pag\<rparr>]))
      else Some ls)"

text \<open>
  Lines 120--184: the visit of one page inside its own function with a deferred recover.
  \<open>la\<close> is the copy \<open>l.Pages[j]\<close>; the assignments to \<open>la.Timestamp\<close> and \<open>la.Status\<close> change
  this copy only, which is dropped when the function ends, so they do not show in the state.
  A recovered panic ends the visit before \<open>StoreLayers\<close>.
\<close>

definition process_page :: "world \<Rightarrow> crawl_state \<Rightarrow> layer \<Rightarrow> page \<Rightarrow> crawl_state" where
  "process_page w s l la =
     (let n = length (visits s);
          s1 = s\<lparr>visits := visits s @ [la]\<rparr>
      in case crawl_Run w n (la\<lparr>Timestamp := UnixTime (now w n)\<rparr>) of
           RunPanicked \<Rightarrow> s1
         | RunFailed e \<Rightarrow> s1\<lparr>checkpoints := checkpoints s1 @ [layers s1]\<rparr>
         | Outlinks ols \<Rightarrow>
             (case unique_outlinks ols (seenURLs s1) [] of
                (seen', None) \<Rightarrow> s1\<lparr>seenURLs := seen'\<rparr>
              | (seen', Some uniq) \<Rightarrow>
                  (case merge_outlinks w n l (map_order w (2 * n) uniq) (layers s1) of
                     None \<Rightarrow> s1\<lparr>seenURLs := seen'\<rparr>
                   | Some ls' \<Rightarrow>
                       s1\<lparr>seenURLs := seen', layers := ls',
                          checkpoints := checkpoints s1 @ [ls']\<rparr>)))"

text \<open>
  Lines 115--119 and 185--187: one turn of the loops. \<open>None\<close> when the outer loop has ended.
\<close>

definition step :: "world \<Rightarrow> crawl_state \<Rightarrow> crawl_state option" where
  "step w s =
     (if idx_i s < length (layers s) then
        (let l = layers s ! idx_i s in
         if idx_j s < length (Pages l) then
           (let la = Pages l ! idx_j s;
                s' = (if Status la \<noteq> ''fetched'' then process_page w s l la else s)
            in Some (s'\<lparr>idx_j := idx_j s + 1\<rparr>))
         else Some (s\<lparr>idx_i := idx_i s + 1, idx_j := 0\<rparr>))
      else None)"

text \<open>
  The loops need not end: every visit may bring new pages. \<open>launch_loop\<close> runs at most the
  given number of turns and is \<open>None\<close> when the loops have not ended by then;
  \<open>run_steps\<close> is the state after that many turns (or at the end, if it comes before).
\<close>

fun launch_loop :: "world \<Rightarrow> nat \<Rightarrow> crawl_state \<Rightarrow> crawl_state option" where
  "launch_loop w 0 s = None"
| "launch_loop w (Suc n) s =
     (case step w s of None \<Rightarrow> Some s | Some s' \<Rightarrow> launch_loop w n s')"


text \<open>
  Lines 92--113: \<open>seenURLs\<close> holds the strings given to \<open>launch\<close>; the frontier is what
  \<open>SeedSetup\<close> returned (its error is not looked at), here the parameter \<open>list0\<close>.
\<close>

definition launch_state :: "string list \<Rightarrow> layer list \<Rightarrow> crawl_state" where
  "launch_state stringList list0 =
     \<lparr>layers = list0, seenURLs = set stringList, idx_i = 0, idx_j = 0, visits = [],
      checkpoints = []\<rparr>"

definition launch :: "world \<Rightarrow> nat \<Rightarrow> string list \<Rightarrow> layer list \<Rightarrow> crawl_state option" where
  "launch w fuel stringList list0 = launch_loop w fuel (launch_state stringList list0)"

text \<open>
  Modelled from the spec: \<open>SeedSetup\<close> of the state manager, whose code is not among the
  sources, for a store that holds no state: layer 0 holds the seeds, each an unvisited page.
\<close>

definition seed_layers :: "string list \<Rightarrow> layer list" where
  "seed_layers seeds =
     [\<lparr>Depth = 0,
       Pages = map (\<lambda>u. \<lparr>page_URL = u, Status = ''unvisited'', Timestamp = ZeroTime\<rparr>) seeds\<rparr>]"

subsection \<open>Notions for the properties of the loop\<close>

definition layer_urls :: "layer \<Rightarrow> string set" where
  "layer_urls l = page_URL ` set (Pages l)"

definition frontier_urls :: "layer list \<Rightarrow> string set" where
  "frontier_urls ls = (\<Union>l \<in> set ls. layer_urls l)"







definition all_pages :: "layer list \<Rightarrow> page list" where
  "all_pages ls = concat (map Pages ls)"


definition unvisited :: "string \<Rightarrow> page" where
  "unvisited u = \<lparr>page_URL = u, Status = ''unvisited'', Timestamp = ZeroTime\<rparr>"

definition fetched_page :: "string \<Rightarrow> page" where
  "fetched_page u = \<lparr>page_URL = u, Status = ''fetched'', Timestamp = ZeroTime\<rparr>"

text \<open>
  A world in which \<open>crawl.Run\<close> answers by the URL of the page, maps are ranged over in the
  order of insertion, and the clock stands still.
\<close>

definition world_of :: "(string \<Rightarrow> run_result) \<Rightarrow> world" where
  "world_of f = \<lparr>crawl_Run = (\<lambda>n p. f (page_URL p)), map_order = (\<lambda>k vs. vs), now = (\<lambda>n. 0)\<rparr>"



definition error_page :: "string \<Rightarrow> page" where
  "error_page u = \<lparr>page_URL = u, Status = ''error'', Timestamp = ZeroTime\<rparr>"




definition faulty_run :: "string \<Rightarrow> run_result" where
  "faulty_run u =
     (if u = ''a'' then RunFailed ''boom'' else if u = ''b'' then RunPanicked else Outlinks [])"



section \<open>Auxiliary facts\<close>

subsection \<open>Splitting a link\<close>

lemma Split_nonempty: "Split xs c \<noteq> []"
  by (induction xs) (auto split: list.splits)

lemma Split_no_sep: "c \<notin> set xs \<Longrightarrow> Split xs c = [xs]"
  by (induction xs) auto

lemma Split_sep: "c \<in> set xs \<Longrightarrow> 2 \<le> length (Split xs c)"
proof (induction xs)
  case Nil
  then show ?case by simp
next
  case (Cons x xs)
  obtain y ys where sp: "Split xs c = y # ys"
    using Split_nonempty[of xs c] by (cases "Split xs c") blast+
  show ?case
  proof (cases "x = c")
    case True
    then show ?thesis by (simp add: sp)
  next
    case False
    with Cons.prems have "c \<in> set xs" by simp
    from Cons.IH[OF this] show ?thesis using False by (simp add: sp)
  qed
qed

lemma takeWhile_snoc_sep:
  "takeWhile (\<lambda>x. x \<noteq> c) (ys @ [c]) = takeWhile (\<lambda>x. x \<noteq> c) ys"
  by (induction ys) simp_all


lemma Split_last: "last (Split xs c) = rev (takeWhile (\<lambda>x. x \<noteq> c) (rev xs))"
proof (induction xs)
  case Nil
  then show ?case by simp
next
  case (Cons x xs)
  obtain y ys where sp: "Split xs c = y # ys"
    using Split_nonempty[of xs c] by (cases "Split xs c") blast+
  show ?case
  proof (cases "x = c")
    case True
    have "last (Split (x # xs) c) = last (Split xs c)"
      using True by (simp add: sp)
    also have "\<dots> = rev (takeWhile (\<lambda>x. x \<noteq> c) (rev xs))" by (rule Cons.IH)
    also have "\<dots> = rev (takeWhile (\<lambda>x. x \<noteq> c) (rev (x # xs)))"
      using True by (simp add: takeWhile_snoc_sep)
    finally show ?thesis .
  next
    case False
    show ?thesis
    proof (cases "c \<in> set xs")
      case True
      from Split_sep[OF True] sp have ys: "ys \<noteq> []" by auto
      have "last (Split (x # xs) c) = last (Split xs c)"
        using False ys by (simp add: sp)
      also have "\<dots> = rev (takeWhile (\<lambda>x. x \<noteq> c) (rev xs))" by (rule Cons.IH)
      also have "takeWhile (\<lambda>a. a \<noteq> c) (rev xs) = takeWhile (\<lambda>a. a \<noteq> c) (rev xs @ [x])"
        using True by (simp add: takeWhile_append1)
      finally show ?thesis by simp
    next
      case notin: False
      have tw: "takeWhile (\<lambda>a. a \<noteq> c) (rev xs @ [x]) = rev xs @ [x]"
        using False notin by (auto simp: takeWhile_eq_all_conv)
      have sp1: "Split (x # xs) c = [x # xs]"
        using False notin by (intro Split_no_sep) simp
      show ?thesis by (subst sp1, subst rev.simps, subst tw) simp
    qed
  qed
qed

subsection \<open>Years of the example dates\<close>

lemma utc_year_2015: "utc_year 1435708800 = 2015"
proof -
  have d1: "(1435708800::int) div 86400 + 719468 = 736085" by simp
  have d2: "(736085::int) div 146097 = 5" "(736085::int) mod 146097 = 5600" by simp_all
  have d3: "civil_yoe 5600 = 15" by (simp add: civil_yoe_def)
  have d4: "civil_mp 5600 15 = 4" by (simp add: civil_mp_def)
  show ?thesis unfolding utc_year_def d1 Let_def d2 d3 d4 by simp
qed

lemma utc_year_2021: "utc_year 1609459200 = 2021"
proof -
  have d1: "(1609459200::int) div 86400 + 719468 = 738096" by simp
  have d2: "(738096::int) div 146097 = 5" "(738096::int) mod 146097 = 7611" by simp_all
  have d3: "civil_yoe 7611 = 20" by (simp add: civil_yoe_def)
  have d4: "civil_mp 7611 20 = 10" by (simp add: civil_mp_def)
  show ?thesis unfolding utc_year_def d1 Let_def d2 d3 d4 by simp
qed

subsection \<open>Sequencing\<close>

lemma and_then_simps [simp]:
  "and_then (Continue s) k = k s"
  "and_then (Return s) k = Return s"
  "and_then (Panic s) k = Panic s"
  by (simp_all add: and_then_def)

subsection \<open>The parts of ParseMessage\<close>

lemma and_then_Return:
  "and_then f k = Return s \<longleftrightarrow> f = Return s \<or> (\<exists>s'. f = Continue s' \<and> k s' = Return s)"
  by (cases f) (auto simp: and_then_def)

lemma and_then_Continue:
  "and_then f k = Continue s \<longleftrightarrow> (\<exists>s'. f = Continue s' \<and> k s' = Continue s)"
  by (cases f) (auto simp: and_then_def)

lemma and_then_Panic:
  "and_then f k = Panic s \<longleftrightarrow> f = Panic s \<or> (\<exists>s'. f = Continue s' \<and> k s' = Panic s)"
  by (cases f) (auto simp: and_then_def)

lemma fetch_and_upload_Continue:
  "fetch_and_upload sm cl crawlid ch link fid s = Continue s' \<Longrightarrow>
     \<exists>e. s' = s\<lparr>fetched := fetched s @ [fid],
               uploaded := uploaded s @ [(crawlid, ch, link, fetchfilefromtelegram cl fid)],
               err_var := e\<rparr>"
  by (auto simp: fetch_and_upload_def Let_def split: call.splits)

lemma fetch_and_upload_Panic:
  "fetch_and_upload sm cl crawlid ch link fid s = Panic s' \<Longrightarrow>
     s' = s\<lparr>fetched := fetched s @ [fid],
               uploaded := uploaded s @ [(crawlid, ch, link, fetchfilefromtelegram cl fid)]\<rparr>"
  by (auto simp: fetch_and_upload_def Let_def split: call.splits)

lemma fetch_and_upload_not_Return [simp]:
  "fetch_and_upload sm cl crawlid ch link fid s \<noteq> Return s'"
  by (auto simp: fetch_and_upload_def Let_def split: call.splits)

lemma fetch_comments_not_Return [simp]:
  "fetch_comments h m cht ch cl s \<noteq> Return s'"
  by (auto simp: fetch_comments_def Let_def split: option.splits call.splits prod.splits)

lemma dispatch_content_not_Return [simp]:
  "dispatch_content sm cl crawlid ch link c s \<noteq> Return s'"
  by (auto simp: dispatch_content_def Let_def and_then_Return
      split: option.splits message_content.splits call.splits prod.splits)

lemma collect_reactions_not_Return [simp]:
  "collect_reactions m s \<noteq> Return s'"
  by (auto simp: collect_reactions_def Let_def split: option.splits)

lemma check_cutoff_Continue:
  "check_cutoff h (Some m) s = Continue s' \<longleftrightarrow> \<not> Year h (Date m) < 2018 \<and> s' = s"
  by (auto simp: check_cutoff_def)

lemma check_cutoff_Return:
  "check_cutoff h (Some m) s = Return s' \<longleftrightarrow>
     Year h (Date m) < 2018 \<and> s' = s\<lparr>post_var := empty_post, err_var := None\<rparr>"
  by (auto simp: check_cutoff_def)

lemma message_number_Some:
  "message_number (Some l) s = Continue (s\<lparr>messageNumber := last (Split (Link l) (CHR ''/''))\<rparr>)"
  using Split_nonempty[of "Link l" "CHR ''/''"]
  by (simp add: message_number_def Let_def last_conv_nth)

lemma fetch_comments_frame:
  "fetch_comments h m cht ch cl s = Continue s' \<Longrightarrow>
     messageNumber s' = messageNumber s \<and> post_var s' = post_var s \<and> stored s' = stored s \<and>
     fetched s' = fetched s \<and> uploaded s' = uploaded s \<and> description s' = description s \<and>
     thumbnailPath s' = thumbnailPath s \<and> videoPath s' = videoPath s"
  by (auto simp: fetch_comments_def Let_def split: option.splits call.splits prod.splits if_splits)

lemma fetch_and_upload_frame:
  "fetch_and_upload sm cl crawlid ch link fid s = Continue s' \<Longrightarrow>
     messageNumber s' = messageNumber s \<and> post_var s' = post_var s \<and> stored s' = stored s \<and>
     comments s' = comments s \<and> inner_defers s' = inner_defers s \<and>
     description s' = description s \<and> thumbnailPath s' = thumbnailPath s \<and>
     videoPath s' = videoPath s \<and> fetched s' = fetched s @ [fid]"
  by (auto dest!: fetch_and_upload_Continue)

lemma dispatch_content_frame:
  "dispatch_content sm cl crawlid ch link c s = Continue s' \<Longrightarrow>
     messageNumber s' = messageNumber s \<and> post_var s' = post_var s \<and> stored s' = stored s \<and>
     comments s' = comments s \<and> inner_defers s' = inner_defers s"
  by (auto simp: dispatch_content_def Let_def and_then_Continue
      split: option.splits message_content.splits call.splits prod.splits
      dest!: fetch_and_upload_frame)

lemma collect_reactions_frame:
  "collect_reactions m s = Continue s' \<Longrightarrow>
     messageNumber s' = messageNumber s \<and> post_var s' = post_var s \<and> stored s' = stored s \<and>
     comments s' = comments s \<and> description s' = description s \<and>
     thumbnailPath s' = thumbnailPath s \<and> videoPath s' = videoPath s \<and>
     fetched s' = fetched s \<and> uploaded s' = uploaded s \<and> err_var s' = err_var s"
  by (auto simp: collect_reactions_def Let_def split: option.splits if_splits)

lemma assemble_and_store_Return:
  "assemble_and_store h sm cl crawlid m link cht sgi pc vc ch s = Return s' \<Longrightarrow>
     err_var s' = None \<and> PostUID (post_var s') = messageNumber s @ ''-'' @ ch \<and>
     ThumbURL (post_var s') = thumbnailPath s \<and> MediaURL (post_var s') = videoPath s \<and>
     Description (post_var s') = description s \<and>
     Reactions_of (post_var s') = reactions s \<and> Comments (post_var s') = comments s \<and>
     stored s' = stored s @ [(crawlid, ch, post_var s')] \<and>
     fetched s' = fetched s \<and> uploaded s' = uploaded s"
  by (auto simp: assemble_and_store_def Let_def split: option.splits call.splits prod.splits)

lemma assemble_and_store_not_Continue [simp]:
  "assemble_and_store h sm cl crawlid m link cht sgi pc vc ch s \<noteq> Continue s'"
  by (auto simp: assemble_and_store_def Let_def split: option.splits call.splits prod.splits)

lemma ParseMessage_body_Return:
  assumes "ParseMessage_body h crawlid (Some m) (Some l) cht sgi pc vc ch cl sm = Return s"
  shows "(Year h (Date m) < 2018 \<and> s = init_state) \<or>
         (\<not> Year h (Date m) < 2018 \<and>
          (\<exists>s3 s4 s5.
             fetch_comments h m cht ch cl
               (init_state\<lparr>messageNumber := last (Split (Link l) (CHR ''/''))\<rparr>) = Continue s3 \<and>
             dispatch_content sm cl crawlid ch (Link l) (Content m) s3 = Continue s4 \<and>
             collect_reactions m s4 = Continue s5 \<and>
             assemble_and_store h sm cl crawlid m (Link l) cht sgi pc vc ch s5 = Return s))"
  using assms
  by (auto simp: ParseMessage_body_def and_then_Return check_cutoff_Continue check_cutoff_Return
        message_number_Some init_state_def)

lemma ParseMessage_body_not_Continue [simp]:
  "ParseMessage_body h crawlid message mlr cht sgi pc vc ch cl sm \<noteq> Continue s"
  by (auto simp: ParseMessage_body_def and_then_Continue split: option.splits)

lemma dispatch_content_photo:
  "dispatch_content sm cl crawlid ch link (Some (MessagePhoto cap (Some rid))) s = Continue s' \<Longrightarrow>
     thumbnailPath s' = rid \<and> videoPath s' = videoPath s \<and> fetched s' = fetched s @ [rid] \<and>
     uploaded s' = uploaded s @ [(crawlid, ch, link, fetchfilefromtelegram cl rid)]"
  by (auto simp: dispatch_content_def Let_def split: option.splits
      dest!: fetch_and_upload_Continue)

subsection \<open>The record along the body\<close>

lemma fetch_and_upload_keeps:
  "post_var (flow_state (fetch_and_upload sm cl crawlid ch link fid s)) = post_var s \<and>
   stored (flow_state (fetch_and_upload sm cl crawlid ch link fid s)) = stored s"
  by (auto simp: fetch_and_upload_def flow_state_def Let_def split: call.splits)

lemma fetch_comments_keeps:
  "post_var (flow_state (fetch_comments h m cht ch cl s)) = post_var s \<and>
   stored (flow_state (fetch_comments h m cht ch cl s)) = stored s"
  by (auto simp: fetch_comments_def flow_state_def Let_def
      split: option.splits call.splits prod.splits)

lemma collect_reactions_keeps:
  "post_var (flow_state (collect_reactions m s)) = post_var s \<and>
   stored (flow_state (collect_reactions m s)) = stored s"
  by (auto simp: collect_reactions_def flow_state_def Let_def split: option.splits)

lemma dispatch_content_photo_keeps:
  "post_var (flow_state (dispatch_content sm cl crawlid ch link
      (Some (MessagePhoto cap pid)) s)) = post_var s \<and>
   stored (flow_state (dispatch_content sm cl crawlid ch link
      (Some (MessagePhoto cap pid)) s)) = stored s"
  using fetch_and_upload_keeps
  by (auto simp: dispatch_content_def Let_def flow_state_def[of "Panic _"]
      split: option.splits)

lemma assemble_and_store_thumb:
  fixes s :: pm_state and h sm cl crawlid m link cht sgi pc vc ch
  defines "s' \<equiv> flow_state (assemble_and_store h sm cl crawlid m link cht sgi pc vc ch s)"
  shows "(post_var s' = post_var s \<or>
          (ThumbURL (post_var s') = thumbnailPath s \<and> MediaURL (post_var s') = videoPath s)) \<and>
         (stored s' = stored s \<or>
          (\<exists>p. stored s' = stored s @ [(crawlid, ch, p)] \<and> ThumbURL p = thumbnailPath s \<and>
               MediaURL p = videoPath s))"
  unfolding s'_def
  by (auto simp: assemble_and_store_def flow_state_def Let_def
      split: option.splits call.splits prod.splits)

lemma flow_state_simps [simp]:
  "flow_state (Continue s) = s" "flow_state (Return s) = s" "flow_state (Panic s) = s"
  by (simp_all add: flow_state_def)

lemma ParseMessage_body_photo:
  fixes h crawlid m l cht sgi pc vc ch cl sm
  assumes c: "Content m = Some (MessagePhoto cap pid)"
  defines "s \<equiv> flow_state (ParseMessage_body h crawlid (Some m) (Some l) cht sgi pc vc ch cl sm)"
  shows "(ThumbURL (post_var s) = '''' \<or> pid = Some (ThumbURL (post_var s))) \<and>
         (\<forall>x \<in> set (stored s). pid = Some (ThumbURL (snd (snd x))) \<and> MediaURL (snd (snd x)) = '''')"
proof (cases "Year h (Date m) < 2018")
  case True
  then have "s = init_state"
    by (simp add: s_def ParseMessage_body_def check_cutoff_def init_state_def)
  then show ?thesis by (simp add: init_state_def empty_post_def)
next
  case False
  let ?s2 = "init_state\<lparr>messageNumber := last (Split (Link l) (CHR ''/''))\<rparr>"
  let ?d = "\<lambda>s3. dispatch_content sm cl crawlid ch (Link l) (Some (MessagePhoto cap pid)) s3"
  let ?a = "\<lambda>s5. assemble_and_store h sm cl crawlid m (Link l) cht sgi pc vc ch s5"
  have body: "ParseMessage_body h crawlid (Some m) (Some l) cht sgi pc vc ch cl sm =
      and_then (fetch_comments h m cht ch cl ?s2) (\<lambda>s3.
        and_then (?d s3) (\<lambda>s4. and_then (collect_reactions m s4) ?a))"
    using False c by (simp add: ParseMessage_body_def check_cutoff_def message_number_Some)
  have empty: "post_var t = empty_post \<Longrightarrow> stored t = [] \<Longrightarrow>
      (ThumbURL (post_var t) = '''' \<or> pid = Some (ThumbURL (post_var t))) \<and>
      (\<forall>x \<in> set (stored t). pid = Some (ThumbURL (snd (snd x))) \<and> MediaURL (snd (snd x)) = '''')"
    for t :: pm_state
    by (simp add: empty_post_def)
  have k2: "post_var ?s2 = empty_post" "stored ?s2 = []"
    by (simp_all add: init_state_def)
  show ?thesis
  proof (cases "fetch_comments h m cht ch cl ?s2")
    case (Return t)
    then show ?thesis by simp
  next
    case (Panic t)
    with fetch_comments_keeps[of h m cht ch cl ?s2] k2
    have "post_var t = empty_post" "stored t = []" by simp_all
    moreover from Panic body have "s = t" by (simp add: s_def)
    ultimately show ?thesis using empty by simp
  next
    case (Continue s3)
    with fetch_comments_keeps[of h m cht ch cl ?s2] k2
    have k3: "post_var s3 = empty_post" "stored s3 = []" by simp_all
    from fetch_comments_frame[OF Continue]
    have v3: "videoPath s3 = ''''" by (simp add: init_state_def)
    show ?thesis
    proof (cases "?d s3")
      case (Return t)
      then show ?thesis by simp
    next
      case (Panic t)
      with dispatch_content_photo_keeps[of sm cl crawlid ch "Link l" cap pid s3] k3
      have "post_var t = empty_post" "stored t = []" by simp_all
      moreover from Panic Continue body have "s = t" by (simp add: s_def)
      ultimately show ?thesis using empty by simp
    next
      case d: (Continue s4)
      with dispatch_content_photo_keeps[of sm cl crawlid ch "Link l" cap pid s3] k3
      have k4: "post_var s4 = empty_post" "stored s4 = []" by simp_all
      from d obtain rid where rid: "pid = Some rid"
        by (cases pid) (auto simp: dispatch_content_def split: option.splits)
      from dispatch_content_photo[OF d[unfolded rid]] v3
      have t4: "thumbnailPath s4 = rid" "videoPath s4 = ''''" by simp_all
      show ?thesis
      proof (cases "collect_reactions m s4")
        case (Return t)
        then show ?thesis by simp
      next
        case (Panic t)
        with collect_reactions_keeps[of m s4] k4
        have "post_var t = empty_post" "stored t = []" by simp_all
        moreover from Panic d Continue body have "s = t" by (simp add: s_def)
        ultimately show ?thesis using empty by simp
      next
        case r: (Continue s5)
        with collect_reactions_keeps[of m s4] k4
        have k5: "post_var s5 = empty_post" "stored s5 = []" by simp_all
        from collect_reactions_frame[OF r] t4
        have t5: "thumbnailPath s5 = rid" "videoPath s5 = ''''" by simp_all
        from r d Continue body have fin: "s = flow_state (?a s5)" by (simp add: s_def)
        from assemble_and_store_thumb[of h sm cl crawlid m "Link l" cht sgi pc vc ch s5]
        show ?thesis
          unfolding fin[symmetric] k5 t5 rid
          by (auto simp: empty_post_def)
      qed
    qed
  qed
qed

lemma ParseMessage_result:
  "fst (ParseMessage h crawlid message mlr cht sgi pc vc ch cl sm)
     = post_var (flow_state (ParseMessage_body h crawlid message mlr cht sgi pc vc ch cl sm)) \<and>
   stored (snd (snd (ParseMessage h crawlid message mlr cht sgi pc vc ch cl sm)))
     = stored (flow_state (ParseMessage_body h crawlid message mlr cht sgi pc vc ch cl sm))"
  by (cases "ParseMessage_body h crawlid message mlr cht sgi pc vc ch cl sm")
     (simp_all add: ParseMessage_def run_deferred_def)

subsection \<open>The reaction loop\<close>

lemma reactions_loop_eq:
  "reactions_loop rs acc =
     (if None \<in> set rs then None else Some (acc ++ map_of (rev (emoji_counts rs))))"
proof (induction rs arbitrary: acc)
  case Nil
  then show ?case by simp
next
  case (Cons r rs)
  show ?case
  proof (cases r)
    case None
    then show ?thesis by simp
  next
    case (Some x)
    show ?thesis
    proof (cases "Type x")
      case None
      with Some Cons show ?thesis by simp
    next
      case ty: (Some t)
      show ?thesis
      proof (cases t)
        case (ReactionTypeEmoji e)
        have "acc(e \<mapsto> TotalCount x) ++ map_of (rev (emoji_counts rs)) =
              acc ++ (map_of (rev (emoji_counts rs) @ [(e, TotalCount x)]))"
          by (rule ext) (auto simp: map_add_def map_of_append split: option.splits)
        with Some ty ReactionTypeEmoji Cons show ?thesis by simp
      next
        case (ReactionTypeCustomEmoji n)
        with Some ty Cons show ?thesis by simp
      next
        case ReactionTypePaid
        with Some ty Cons show ?thesis by simp
      qed
    qed
  qed
qed

lemma map_of_rev_distinct:
  "distinct (map fst xs) \<Longrightarrow> map_of (rev xs) = map_of xs"
proof (induction xs)
  case Nil
  then show ?case by simp
next
  case (Cons p xs)
  then have ih: "map_of (rev xs) = map_of xs" and fresh: "map_of xs (fst p) = None"
    by (auto simp: map_of_eq_None_iff)
  show ?case
    by (rule ext) (auto simp: map_of_append map_add_def ih fresh split: option.splits)
qed

lemma sum_filter_distinct:
  "distinct (map fst xs) \<Longrightarrow> (e, n) \<in> set xs \<Longrightarrow>
     sum_list (map snd (filter (\<lambda>p. fst p = e) xs)) = n"
proof (induction xs)
  case Nil
  then show ?case by simp
next
  case (Cons p xs)
  obtain a b where p: "p = (a, b)" by (cases p)
  show ?case
  proof (cases "a = e")
    case True
    with Cons.prems p have "filter (\<lambda>p. fst p = e) xs = []"
      by (auto simp: filter_empty_conv image_iff)
    moreover from True Cons.prems p have "b = n"
      by (auto simp: image_iff)
    ultimately show ?thesis using True p by simp
  next
    case False
    with Cons p show ?thesis by auto
  qed
qed

lemma collect_reactions_Continue:
  "collect_reactions m s = Continue s' \<Longrightarrow>
     reactions s' = map_of (rev (emoji_counts (reaction_entries m)))"
  by (auto simp: collect_reactions_def reaction_entries_def reactions_loop_eq Let_def
      split: option.splits if_splits)

subsection \<open>Unfolding for concrete inputs\<close>

lemmas pm_defs =
  ParseMessage_def ParseMessage_body_def check_cutoff_def run_deferred_def init_state_def
  message_number_def fetch_comments_def dispatch_content_def collect_reactions_def
  assemble_and_store_def processMessageSafely_def fetch_and_upload_def
  fetchfilefromtelegram_def fetchfilefromtelegram_body_def Let_def

lemmas example_defs =
  example_helpers_def example_message_def example_chat_def example_info_def example_sm_def
  example_client_def example_link_def utc_year_2021 comment_error_helpers_def
  replies_info_def emoji_reaction_def

section \<open>Properties of fetchfilefromtelegram\<close>

text \<open>
  Claim C10. \<open>fetchfilefromtelegram\<close> hands its caller a string in every case, never an error
  or a panic: when looking up the remote file fails, when the download fails, when the
  downloaded local path is empty, and when its body panics, the string is empty. It is
  non-empty only when both calls succeeded, and is then the downloaded local path. In
  \<open>ParseMessage\<close> the string goes to the upload as its path whatever it is, so a failed fetch
  becomes an upload of the empty path.
\<close>

theorem fetchfilefromtelegram_degrades:
  "(GetRemoteFile c d = Returned (f, Some e) \<longrightarrow> fetchfilefromtelegram (Some c) d = '''') \<and>
   (GetRemoteFile c d = Returned (Some fid, None) \<and> DownloadFile c fid = Returned (p, Some e)
      \<longrightarrow> fetchfilefromtelegram (Some c) d = '''') \<and>
   (GetRemoteFile c d = Returned (Some fid, None) \<and> DownloadFile c fid = Returned (Some '''', None)
      \<longrightarrow> fetchfilefromtelegram (Some c) d = '''') \<and>
   (fetchfilefromtelegram_body cl d = Panicked \<longrightarrow> fetchfilefromtelegram cl d = '''') \<and>
   (fetchfilefromtelegram cl d \<noteq> '''' \<longrightarrow>
      (\<exists>c' fid'. cl = Some c' \<and> GetRemoteFile c' d = Returned (Some fid', None) \<and>
         DownloadFile c' fid' = Returned (Some (fetchfilefromtelegram cl d), None))) \<and>
   uploaded (flow_state (fetch_and_upload sm cl crawlid channelName link d s)) =
     uploaded s @ [(crawlid, channelName, link, fetchfilefromtelegram cl d)]"
  by (auto simp: fetchfilefromtelegram_def fetchfilefromtelegram_body_def fetch_and_upload_def
        flow_state_def Let_def split: option.splits call.splits prod.splits if_splits)

theorem fetchfilefromtelegram_degrades_witness:
  "GetRemoteFile failing_client ''remote-1'' = Returned (None, Some ''file not found'') \<and>
   fetchfilefromtelegram (Some failing_client) ''remote-1'' = '''' \<and>
   fetchfilefromtelegram None ''remote-1'' = '''' \<and>
   fetchfilefromtelegram (Some example_client) ''remote-1'' = ''/tmp/file'' \<and>
   uploaded (flow_state (fetch_and_upload example_sm (Some failing_client) ''crawl'' ''chan''
       ''https://t.me/chan/42'' ''remote-1'' init_state)) =
     [(''crawl'', ''chan'', ''https://t.me/chan/42'', '''')]"
proof -
  have lookup: "GetRemoteFile failing_client ''remote-1'' = Returned (None, Some ''file not found'')"
    by (simp add: failing_client_def)
  have nil_client: "fetchfilefromtelegram_body None ''remote-1'' = Panicked"
    by (simp add: fetchfilefromtelegram_body_def)
  have ok: "fetchfilefromtelegram (Some example_client) ''remote-1'' = ''/tmp/file''"
    by (simp add: fetchfilefromtelegram_def fetchfilefromtelegram_body_def example_client_def)
  note inst = fetchfilefromtelegram_degrades
    [where c = failing_client and d = "''remote-1''" and f = None and e = "''file not found''"
       and cl = "Some failing_client" and sm = example_sm and crawlid = "''crawl''"
       and channelName = "''chan''" and link = "''https://t.me/chan/42''" and s = init_state]
  note inst_nil = fetchfilefromtelegram_degrades [where cl = None and d = "''remote-1''"]
  from inst lookup have failed: "fetchfilefromtelegram (Some failing_client) ''remote-1'' = ''''"
    by blast
  from inst_nil nil_client have nil: "fetchfilefromtelegram None ''remote-1'' = ''''"
    by blast
  from inst failed have up:
    "uploaded (flow_state (fetch_and_upload example_sm (Some failing_client) ''crawl'' ''chan''
        ''https://t.me/chan/42'' ''remote-1'' init_state)) =
      [(''crawl'', ''chan'', ''https://t.me/chan/42'', '''')]"
    by (simp add: init_state_def)
  from lookup failed nil ok up show ?thesis by simp
qed

section \<open>Properties of ParseMessage\<close>

text \<open>
  Claim C4, evaluated on the code. For a video message the two downloads are the thumbnail
  and the video body. For a document and for a video note the second download is given the
  thumbnail's id again: the id of the document or video body is stored in \<open>videoPath\<close> and
  never downloaded.
\<close>

theorem document_fetches_thumbnail_twice:
  "fetched (snd (snd (ParseMessage example_helpers ''crawl''
     (Some (example_message
        (MessageDocument (Some \<lparr>FileName = ''a.pdf'', document_Thumbnail = Some ''thumb-id'',
                                 document_Document = Some ''body-id''\<rparr>)) None))
     (Some example_link) (Some example_chat) (Some example_info) 10 20 ''chan''
     (Some example_client) example_sm))) = [''thumb-id'', ''thumb-id''] \<and>
   fetched (snd (snd (ParseMessage example_helpers ''crawl''
     (Some (example_message (MessageVideoNote (Some ''thumb-id'') (Some ''body-id'')) None))
     (Some example_link) (Some example_chat) (Some example_info) 10 20 ''chan''
     (Some example_client) example_sm))) = [''thumb-id'', ''thumb-id''] \<and>
   fetched (snd (snd (ParseMessage example_helpers ''crawl''
     (Some (example_message
        (MessageVideo (Some \<lparr>Video = Some \<lparr>video_Thumbnail = Some (Some ''thumb-id''),
                                           video_Video = Some ''body-id''\<rparr>,
                              video_Caption = Some ''a video''\<rparr>)) None))
     (Some example_link) (Some example_chat) (Some example_info) 10 20 ''chan''
     (Some example_client) example_sm))) = [''thumb-id'', ''body-id'']"
  by (simp add: pm_defs example_defs)

text \<open>
  Claim C5, as amended. Take a photo message whose first photo size has the remote file id
  \<open>rid\<close>, with a link. Whatever the other arguments do, the thumbnail field of the record
  that \<open>ParseMessage\<close> returns is \<open>rid\<close> or empty (empty for a message cut off by the year and
  when a panic leaves the zero-value record), and every record handed to \<open>StoreData\<close> has
  the thumbnail field \<open>rid\<close> and an empty media field. When the message is from 2018 or later
  and the body runs to its last statement, the returned record is the stored one, its
  thumbnail field is \<open>rid\<close>, the one download is of \<open>rid\<close>, and the one upload is given the
  local path that the download returned. The field never depends on the upload: the state
  manager's upload returns an error only.
\<close>

theorem photo_thumbnail_is_remote_id:
  "Content m = Some (MessagePhoto cap (Some rid)) \<longrightarrow>
     (ThumbURL (fst (ParseMessage h crawlid (Some m) (Some l) cht sgi pc vc ch cl sm)) = rid \<or>
      ThumbURL (fst (ParseMessage h crawlid (Some m) (Some l) cht sgi pc vc ch cl sm)) = '''') \<and>
     (\<forall>x \<in> set (stored (snd (snd (ParseMessage h crawlid (Some m) (Some l) cht sgi pc vc ch cl sm)))).
        ThumbURL (snd (snd x)) = rid \<and> MediaURL (snd (snd x)) = '''') \<and>
     (\<not> Year h (Date m) < 2018 \<and>
      ParseMessage_body h crawlid (Some m) (Some l) cht sgi pc vc ch cl sm = Return s \<longrightarrow>
        fst (ParseMessage h crawlid (Some m) (Some l) cht sgi pc vc ch cl sm) = post_var s \<and>
        ThumbURL (post_var s) = rid \<and> MediaURL (post_var s) = '''' \<and> fetched s = [rid] \<and>
        uploaded s = [(crawlid, ch, Link l, fetchfilefromtelegram cl rid)] \<and>
        stored s = [(crawlid, ch, post_var s)])"
proof (intro impI conjI)
  assume c: "Content m = Some (MessagePhoto cap (Some rid))"
  from ParseMessage_body_photo[OF c, of h crawlid l cht sgi pc vc ch cl sm]
    ParseMessage_result[of h crawlid "Some m" "Some l" cht sgi pc vc ch cl sm]
  show "ThumbURL (fst (ParseMessage h crawlid (Some m) (Some l) cht sgi pc vc ch cl sm)) = rid \<or>
      ThumbURL (fst (ParseMessage h crawlid (Some m) (Some l) cht sgi pc vc ch cl sm)) = ''''"
    and "\<forall>x \<in> set (stored (snd (snd (ParseMessage h crawlid (Some m) (Some l) cht sgi pc vc ch cl sm)))).
        ThumbURL (snd (snd x)) = rid \<and> MediaURL (snd (snd x)) = ''''"
    by auto
next
  assume c: "Content m = Some (MessagePhoto cap (Some rid))"
    and a: "\<not> Year h (Date m) < 2018 \<and>
      ParseMessage_body h crawlid (Some m) (Some l) cht sgi pc vc ch cl sm = Return s"
  then obtain s3 s4 s5 where
    fc: "fetch_comments h m cht ch cl
          (init_state\<lparr>messageNumber := last (Split (Link l) (CHR ''/''))\<rparr>) = Continue s3" and
    d: "dispatch_content sm cl crawlid ch (Link l) (Some (MessagePhoto cap (Some rid))) s3
          = Continue s4" and
    r: "collect_reactions m s4 = Continue s5" and
    f: "assemble_and_store h sm cl crawlid m (Link l) cht sgi pc vc ch s5 = Return s"
    using ParseMessage_body_Return[of h crawlid m l cht sgi pc vc ch cl sm s] by auto
  have "thumbnailPath s5 = rid \<and> videoPath s5 = '''' \<and> fetched s5 = [rid] \<and>
        uploaded s5 = [(crawlid, ch, Link l, fetchfilefromtelegram cl rid)] \<and> stored s5 = []"
    using fetch_comments_frame[OF fc] dispatch_content_photo[OF d] collect_reactions_frame[OF r]
      dispatch_content_frame[OF d]
    by (simp add: init_state_def)
  with assemble_and_store_Return[OF f]
  show "ThumbURL (post_var s) = rid" "MediaURL (post_var s) = ''''" "fetched s = [rid]"
    "uploaded s = [(crawlid, ch, Link l, fetchfilefromtelegram cl rid)]"
    "stored s = [(crawlid, ch, post_var s)]"
    by simp_all
  from a show "fst (ParseMessage h crawlid (Some m) (Some l) cht sgi pc vc ch cl sm) = post_var s"
    by (simp add: ParseMessage_def run_deferred_def)
qed

theorem photo_thumbnail_is_remote_id_witness:
  "Content (example_message (MessagePhoto (Some ''a photo'') (Some ''remote-A'')) None)
     = Some (MessagePhoto (Some ''a photo'') (Some ''remote-A'')) \<and>
   \<not> Year example_helpers
       (Date (example_message (MessagePhoto (Some ''a photo'') (Some ''remote-A'')) None)) < 2018 \<and>
   (\<exists>s. ParseMessage_body example_helpers ''crawl''
       (Some (example_message (MessagePhoto (Some ''a photo'') (Some ''remote-A'')) None))
       (Some example_link) (Some example_chat) (Some example_info) 10 20 ''chan''
       (Some example_client) example_sm = Return s) \<and>
   ThumbURL (fst (ParseMessage example_helpers ''crawl''
     (Some (example_message (MessagePhoto (Some ''a photo'') (Some ''remote-A'')) None))
     (Some example_link) (Some example_chat) (Some example_info) 10 20 ''chan''
     (Some example_client) example_sm)) = ''remote-A'' \<and>
   map (\<lambda>x. (ThumbURL (snd (snd x)), MediaURL (snd (snd x))))
     (stored (snd (snd (ParseMessage example_helpers ''crawl''
       (Some (example_message (MessagePhoto (Some ''a photo'') (Some ''remote-A'')) None))
       (Some example_link) (Some example_chat) (Some example_info) 10 20 ''chan''
       (Some example_client) example_sm)))) = [(''remote-A'', '''')]"
proof -
  let ?m = "example_message (MessagePhoto (Some ''a photo'') (Some ''remote-A'')) None"
  let ?body = "ParseMessage_body example_helpers ''crawl'' (Some ?m) (Some example_link)
     (Some example_chat) (Some example_info) 10 20 ''chan'' (Some example_client) example_sm"
  have y: "\<not> Year example_helpers (Date ?m) < 2018"
    by (simp add: example_defs)
  have c: "Content ?m = Some (MessagePhoto (Some ''a photo'') (Some ''remote-A''))"
    by (simp add: example_message_def)
  have "\<exists>s. ?body = Return s"
    by (simp add: pm_defs example_defs)
  then obtain s where b: "?body = Return s" ..
  note inst = photo_thumbnail_is_remote_id[where m = ?m and cap = "Some ''a photo''"
      and rid = "''remote-A''" and h = example_helpers and crawlid = "''crawl''"
      and l = example_link and cht = "Some example_chat" and sgi = "Some example_info"
      and pc = 10 and vc = 20 and ch = "''chan''" and cl = "Some example_client"
      and sm = example_sm and s = s]
  note r = inst[THEN mp, OF c, THEN conjunct2, THEN conjunct2, THEN mp, OF conjI[OF y b]]
  have st: "stored (snd (snd (ParseMessage example_helpers ''crawl'' (Some ?m) (Some example_link)
     (Some example_chat) (Some example_info) 10 20 ''chan'' (Some example_client) example_sm)))
     = stored s"
    using b by (simp add: ParseMessage_def run_deferred_def)
  have t: "ThumbURL (fst (ParseMessage example_helpers ''crawl'' (Some ?m) (Some example_link)
     (Some example_chat) (Some example_info) 10 20 ''chan'' (Some example_client) example_sm))
     = ''remote-A''"
    using r by simp
  have m: "map (\<lambda>x. (ThumbURL (snd (snd x)), MediaURL (snd (snd x)))) (stored s)
     = [(''remote-A'', '''')]"
    using r by simp
  show ?thesis
    unfolding st
    by (intro conjI exI[of _ s]) (rule c y b t m)+
qed

text \<open>
  Claim C5 as stated fails: two photo messages on the same link are uploaded from the same
  local path under the same crawl id, channel and link, both uploads succeed, and the two
  thumbnail fields are the two remote file ids. The field is not a reference to the place of
  the upload.
\<close>

theorem photo_thumbnail_not_blob_reference:
  "ThumbURL (fst (ParseMessage example_helpers ''crawl''
     (Some (example_message (MessagePhoto (Some ''a photo'') (Some ''remote-A'')) None))
     (Some example_link) (Some example_chat) (Some example_info) 10 20 ''chan''
     (Some example_client) example_sm)) = ''remote-A'' \<and>
   ThumbURL (fst (ParseMessage example_helpers ''crawl''
     (Some (example_message (MessagePhoto (Some ''a photo'') (Some ''remote-B'')) None))
     (Some example_link) (Some example_chat) (Some example_info) 10 20 ''chan''
     (Some example_client) example_sm)) = ''remote-B'' \<and>
   uploaded (snd (snd (ParseMessage example_helpers ''crawl''
     (Some (example_message (MessagePhoto (Some ''a photo'') (Some ''remote-A'')) None))
     (Some example_link) (Some example_chat) (Some example_info) 10 20 ''chan''
     (Some example_client) example_sm)))
     = [(''crawl'', ''chan'', ''https://t.me/chan/42'', ''/tmp/file'')] \<and>
   uploaded (snd (snd (ParseMessage example_helpers ''crawl''
     (Some (example_message (MessagePhoto (Some ''a photo'') (Some ''remote-B'')) None))
     (Some example_link) (Some example_chat) (Some example_info) 10 20 ''chan''
     (Some example_client) example_sm)))
     = [(''crawl'', ''chan'', ''https://t.me/chan/42'', ''/tmp/file'')] \<and>
   UploadBlobFileAndDelete example_sm ''crawl'' ''chan'' ''https://t.me/chan/42'' ''/tmp/file''
     = Returned None"
  by (simp add: pm_defs example_defs)

text \<open>
  Claim C6. A message whose publish date lies in a year before 2018 (in the zone of the
  process) yields the zero-value record and a nil error, and nothing was downloaded,
  uploaded or handed to \<open>StoreData\<close>.
\<close>

theorem cutoff_yields_empty_record:
  "Year h (Date m) < 2018 \<Longrightarrow>
     ParseMessage h crawlid (Some m) mlr cht sgi pc vc ch cl sm = (empty_post, None, init_state) \<and>
     stored init_state = [] \<and> uploaded init_state = [] \<and> fetched init_state = []"
  by (simp add: ParseMessage_def ParseMessage_body_def check_cutoff_def
        run_deferred_def init_state_def)

theorem cutoff_yields_empty_record_witness:
  "Year example_helpers 1435708800 = 2015 \<and>
   ParseMessage example_helpers ''crawl''
     (Some ((example_message (MessageText (Some ''hello'')) None)\<lparr>Date := 1435708800\<rparr>))
     (Some example_link) (Some example_chat) (Some example_info) 10 20
     ''chan'' (Some example_client) example_sm = (empty_post, None, init_state)"
proof -
  have y: "Year example_helpers 1435708800 = 2015"
    by (simp add: example_helpers_def utc_year_2015)
  then have "Year example_helpers
      (Date ((example_message (MessageText (Some ''hello'')) None)\<lparr>Date := 1435708800\<rparr>)) < 2018"
    by simp
  from cutoff_yields_empty_record[OF this] y show ?thesis by simp
qed

text \<open>
  Claim C7, evaluated on the code. For every link the step of lines 339--345 goes on with the
  last part of the split link: \<open>strings.Split\<close> gives at least one part, so the branch that
  returns an empty result (line 344) is never taken. The empty link has no segments; its
  split is the one empty part, and the extraction returns a record with the id \<open>-chan\<close>,
  a nil error, and hands this record to \<open>StoreData\<close>. A link that ends in \<open>/\<close> gives the
  same id.
\<close>

theorem empty_link_yields_record:
  "message_number (Some l) s
     = Continue (s\<lparr>messageNumber := last (Split (Link l) (CHR ''/''))\<rparr>) \<and>
   Split '''' (CHR ''/'') = [''''] \<and>
   PostUID (fst (ParseMessage example_helpers ''crawl''
     (Some (example_message (MessageText (Some ''hello'')) None)) (Some \<lparr>Link = ''''\<rparr>)
     (Some example_chat) (Some example_info) 10 20 ''chan'' (Some example_client) example_sm))
     = ''-chan'' \<and>
   fst (ParseMessage example_helpers ''crawl''
     (Some (example_message (MessageText (Some ''hello'')) None)) (Some \<lparr>Link = ''''\<rparr>)
     (Some example_chat) (Some example_info) 10 20 ''chan'' (Some example_client) example_sm)
     \<noteq> empty_post \<and>
   stored (snd (snd (ParseMessage example_helpers ''crawl''
     (Some (example_message (MessageText (Some ''hello'')) None)) (Some \<lparr>Link = ''''\<rparr>)
     (Some example_chat) (Some example_info) 10 20 ''chan'' (Some example_client) example_sm)))
     = [(''crawl'', ''chan'', fst (ParseMessage example_helpers ''crawl''
     (Some (example_message (MessageText (Some ''hello'')) None)) (Some \<lparr>Link = ''''\<rparr>)
     (Some example_chat) (Some example_info) 10 20 ''chan'' (Some example_client) example_sm))] \<and>
   fst (snd (ParseMessage example_helpers ''crawl''
     (Some (example_message (MessageText (Some ''hello'')) None)) (Some \<lparr>Link = ''''\<rparr>)
     (Some example_chat) (Some example_info) 10 20 ''chan'' (Some example_client) example_sm))
     = None \<and>
   PostUID (fst (ParseMessage example_helpers ''crawl''
     (Some (example_message (MessageText (Some ''hello'')) None))
     (Some \<lparr>Link = ''https://t.me/chan/''\<rparr>)
     (Some example_chat) (Some example_info) 10 20 ''chan'' (Some example_client) example_sm))
     = ''-chan''"
proof (intro conjI)
  show "message_number (Some l) s
     = Continue (s\<lparr>messageNumber := last (Split (Link l) (CHR ''/''))\<rparr>)"
    using Split_nonempty[of "Link l" "CHR ''/''"]
    by (simp add: message_number_def Let_def last_conv_nth)
qed (simp_all add: pm_defs example_defs empty_post_def)

text \<open>
  Claim C8, as amended. When no entry is nil, the loop gives each emoji the count of the last
  entry with that emoji; entries with a nil type or a type other than emoji are skipped. When
  every emoji occurs in one entry only, this is the sum of the counts of its entries. The
  record of an extraction that returns carries this mapping.
\<close>

theorem reactions_last_count_per_emoji:
  "(None \<notin> set rs \<longrightarrow> reactions_loop rs Map.empty = Some (map_of (rev (emoji_counts rs)))) \<and>
   (distinct (map fst (emoji_counts rs)) \<and> (e, n) \<in> set (emoji_counts rs) \<longrightarrow>
      map_of (rev (emoji_counts rs)) e = Some (reaction_sum rs e)) \<and>
   (\<not> Year h (Date m) < 2018 \<and>
    ParseMessage_body h crawlid (Some m) (Some l) cht sgi pc vc ch cl sm = Return s \<longrightarrow>
      Reactions_of (post_var s) = map_of (rev (emoji_counts (reaction_entries m))))"
proof (intro conjI impI)
  assume "None \<notin> set rs"
  then show "reactions_loop rs Map.empty = Some (map_of (rev (emoji_counts rs)))"
    by (simp add: reactions_loop_eq)
next
  assume a: "distinct (map fst (emoji_counts rs)) \<and> (e, n) \<in> set (emoji_counts rs)"
  then have "map_of (rev (emoji_counts rs)) e = Some n"
    by (simp add: map_of_rev_distinct)
  moreover from a have "reaction_sum rs e = n"
    by (simp add: reaction_sum_def sum_filter_distinct)
  ultimately show "map_of (rev (emoji_counts rs)) e = Some (reaction_sum rs e)" by simp
next
  assume a: "\<not> Year h (Date m) < 2018 \<and>
    ParseMessage_body h crawlid (Some m) (Some l) cht sgi pc vc ch cl sm = Return s"
  then obtain s4 s5 where
    r: "collect_reactions m s4 = Continue s5" and
    f: "assemble_and_store h sm cl crawlid m (Link l) cht sgi pc vc ch s5 = Return s"
    using ParseMessage_body_Return[of h crawlid m l cht sgi pc vc ch cl sm s] by auto
  from assemble_and_store_Return[OF f] collect_reactions_Continue[OF r]
  show "Reactions_of (post_var s) = map_of (rev (emoji_counts (reaction_entries m)))"
    by simp
qed

theorem reactions_last_count_per_emoji_witness:
  "reactions_loop
     [emoji_reaction ''like'' 2, Some \<lparr>Type = None, TotalCount = 9\<rparr>,
      Some \<lparr>Type = Some ReactionTypePaid, TotalCount = 4\<rparr>, emoji_reaction ''fire'' 5] Map.empty
     = Some [''like'' \<mapsto> 2, ''fire'' \<mapsto> 5] \<and>
   reaction_sum
     [emoji_reaction ''like'' 2, Some \<lparr>Type = None, TotalCount = 9\<rparr>,
      Some \<lparr>Type = Some ReactionTypePaid, TotalCount = 4\<rparr>, emoji_reaction ''fire'' 5] ''like''
     = 2 \<and>
   Reactions_of (fst (ParseMessage example_helpers ''crawl''
     (Some (example_message (MessageText (Some ''hello''))
        (Some \<lparr>ReplyInfo = None, Reactions = Some
           [emoji_reaction ''like'' 2, Some \<lparr>Type = None, TotalCount = 9\<rparr>,
            Some \<lparr>Type = Some ReactionTypePaid, TotalCount = 4\<rparr>, emoji_reaction ''fire'' 5]\<rparr>)))
     (Some example_link) (Some example_chat) (Some example_info) 10 20 ''chan''
     (Some example_client) example_sm)) ''fire'' = Some 5"
proof -
  let ?rs = "[emoji_reaction ''like'' 2, Some \<lparr>Type = None, TotalCount = 9\<rparr>,
      Some \<lparr>Type = Some ReactionTypePaid, TotalCount = 4\<rparr>, emoji_reaction ''fire'' 5]"
  let ?m = "example_message (MessageText (Some ''hello''))
        (Some \<lparr>ReplyInfo = None, Reactions = Some ?rs\<rparr>)"
  let ?body = "ParseMessage_body example_helpers ''crawl'' (Some ?m) (Some example_link)
     (Some example_chat) (Some example_info) 10 20 ''chan'' (Some example_client) example_sm"
  have ec: "emoji_counts ?rs = [(''like'', 2), (''fire'', 5)]"
    by (simp add: emoji_reaction_def)
  have nn: "None \<notin> set ?rs" by (simp add: emoji_reaction_def)
  have di: "distinct (map fst (emoji_counts ?rs)) \<and> (''like'', 2) \<in> set (emoji_counts ?rs)"
    by (simp add: ec)
  have y: "\<not> Year example_helpers (Date ?m) < 2018"
    by (simp add: example_defs)
  have "\<exists>s. ?body = Return s"
    by (simp add: pm_defs example_defs)
  then obtain s where b: "?body = Return s" ..
  note inst = reactions_last_count_per_emoji[of ?rs "''like''" 2 example_helpers ?m "''crawl''"
      example_link "Some example_chat" "Some example_info" 10 20 "''chan''"
      "Some example_client" example_sm s]
  from inst nn have 1: "reactions_loop ?rs Map.empty = Some (map_of (rev (emoji_counts ?rs)))"
    by blast
  from inst di have 2: "map_of (rev (emoji_counts ?rs)) ''like'' = Some (reaction_sum ?rs ''like'')"
    by blast
  from inst y b
  have 3: "Reactions_of (post_var s) = map_of (rev (emoji_counts (reaction_entries ?m)))"
    by blast
  have re: "reaction_entries ?m = ?rs"
    by (simp add: reaction_entries_def example_message_def)
  have m: "map_of (rev (emoji_counts ?rs)) = [''like'' \<mapsto> 2, ''fire'' \<mapsto> 5]"
    by (rule ext) (simp add: ec)
  from 1 m have A: "reactions_loop ?rs Map.empty = Some [''like'' \<mapsto> 2, ''fire'' \<mapsto> 5]"
    by simp
  from 2 m have B: "reaction_sum ?rs ''like'' = 2" by simp
  from 3 re m b
  have C: "Reactions_of (fst (ParseMessage example_helpers ''crawl'' (Some ?m) (Some example_link)
     (Some example_chat) (Some example_info) 10 20 ''chan'' (Some example_client) example_sm))
     ''fire'' = Some 5"
    by (simp add: ParseMessage_def run_deferred_def)
  from A B C show ?thesis by blast
qed

text \<open>
  Claim C8 as stated fails: with two entries for one emoji, of counts 2 and 3, the record
  maps the emoji to 3, and the sum is 5.
\<close>

theorem duplicate_emoji_not_summed:
  "Reactions_of (fst (ParseMessage example_helpers ''crawl''
     (Some (example_message (MessageText (Some ''hello''))
        (Some \<lparr>ReplyInfo = None,
               Reactions = Some [emoji_reaction ''like'' 2, emoji_reaction ''like'' 3]\<rparr>)))
     (Some example_link) (Some example_chat) (Some example_info) 10 20 ''chan''
     (Some example_client) example_sm)) ''like'' = Some 3 \<and>
   reaction_sum [emoji_reaction ''like'' 2, emoji_reaction ''like'' 3] ''like'' = 5"
  by (simp add: pm_defs example_defs reaction_sum_def)

text \<open>
  Claim C9, evaluated on the code. A document message without a thumbnail panics when the
  thumbnail is read. With reply information, and a comment fetch that returned the error
  \<open>timeout\<close>, the handler deferred for the comments recovers the panic and \<open>ParseMessage\<close>
  returns the zero-value record with the error \<open>timeout\<close>, which the fetch had left in the
  named result. The same message without reply information panics at the same place and
  returns \<open>failed to parse message\<close>.
\<close>

theorem comment_error_returned_after_inner_recover:
  "fst (ParseMessage comment_error_helpers ''crawl''
     (Some (example_message
        (MessageDocument (Some \<lparr>FileName = ''a.pdf'', document_Thumbnail = None,
                                 document_Document = Some ''body-id''\<rparr>))
        (Some replies_info)))
     (Some example_link) (Some example_chat) (Some example_info) 10 20 ''chan''
     (Some example_client) example_sm) = empty_post \<and>
   fst (snd (ParseMessage comment_error_helpers ''crawl''
     (Some (example_message
        (MessageDocument (Some \<lparr>FileName = ''a.pdf'', document_Thumbnail = None,
                                 document_Document = Some ''body-id''\<rparr>))
        (Some replies_info)))
     (Some example_link) (Some example_chat) (Some example_info) 10 20 ''chan''
     (Some example_client) example_sm)) = Some ''timeout'' \<and>
   ParseMessage_body comment_error_helpers ''crawl''
     (Some (example_message
        (MessageDocument (Some \<lparr>FileName = ''a.pdf'', document_Thumbnail = None,
                                 document_Document = Some ''body-id''\<rparr>))
        (Some replies_info)))
     (Some example_link) (Some example_chat) (Some example_info) 10 20 ''chan''
     (Some example_client) example_sm
   = Panic (init_state\<lparr>inner_defers := 1, err_var := Some ''timeout'',
                         messageNumber := ''42''\<rparr>) \<and>
   fst (snd (ParseMessage comment_error_helpers ''crawl''
     (Some (example_message
        (MessageDocument (Some \<lparr>FileName = ''a.pdf'', document_Thumbnail = None,
                                 document_Document = Some ''body-id''\<rparr>))
        None))
     (Some example_link) (Some example_chat) (Some example_info) 10 20 ''chan''
     (Some example_client) example_sm)) = Some ''failed to parse message'' \<and>
   ParseMessage_body comment_error_helpers ''crawl''
     (Some (example_message
        (MessageDocument (Some \<lparr>FileName = ''a.pdf'', document_Thumbnail = None,
                                 document_Document = Some ''body-id''\<rparr>))
        None))
     (Some example_link) (Some example_chat) (Some example_info) 10 20 ''chan''
     (Some example_client) example_sm
   = Panic (init_state\<lparr>messageNumber := ''42''\<rparr>)"
  by (simp add: pm_defs example_defs)

section \<open>Auxiliary facts about the page loop\<close>

subsection \<open>New outlinks and the order of maps\<close>








subsection \<open>URLs of the frontier under a merge\<close>


lemma frontier_urls_append [simp]:
  "frontier_urls (ls @ [x]) = frontier_urls ls \<union> layer_urls x"
  by (auto simp: frontier_urls_def)













subsection \<open>Unfolding for concrete runs\<close>

lemmas loop_defs = launch_def launch_state_def step_def process_page_def merge_outlinks_def
  wrap_int_def world_of_def seed_layers_def unvisited_def fetched_page_def error_page_def Let_def




lemma largest_depth_panics:
  "merge_outlinks w n \<lparr>Depth = 9223372036854775807, Pages = ps\<rparr> [p] ls = None"
  by (simp add: merge_outlinks_def wrap_int_def)

subsection \<open>The loops on a frontier whose depths are the indices\<close>

lemma all_pages_append [simp]: "all_pages (xs @ ys) = all_pages xs @ all_pages ys"
  by (simp add: all_pages_def)

lemma all_pages_Cons [simp]: "all_pages (x # xs) = Pages x @ all_pages xs"
  by (simp add: all_pages_def)

lemma all_pages_Nil [simp]: "all_pages [] = []"
  by (simp add: all_pages_def)












section \<open>Properties of the page loop\<close>

text \<open>
  Claim C1, evaluated on the code. A frontier of three unvisited pages a, b, c: the visit
  of a returns an error, the visit of b panics, the visit of c succeeds. All three pages are
  visited and the loops end, but no status is written to the frontier: the loop marks its
  copy of the page only, and after a recovered panic not even that, so every page is still
  unvisited in the frontier at the end and in each of the two frontiers handed to
  \<open>StoreLayers\<close> (none is handed over after the panic).
\<close>

theorem failed_visits_leave_status:
  "map_option (\<lambda>s. (layers s, visits s, checkpoints s))
     (launch (world_of faulty_run) 10 [''a'', ''b'', ''c'']
        [\<lparr>Depth = 0, Pages = [unvisited ''a'', unvisited ''b'', unvisited ''c'']\<rparr>])
   = Some ([\<lparr>Depth = 0, Pages = [unvisited ''a'', unvisited ''b'', unvisited ''c'']\<rparr>],
           [unvisited ''a'', unvisited ''b'', unvisited ''c''],
           [[\<lparr>Depth = 0, Pages = [unvisited ''a'', unvisited ''b'', unvisited ''c'']\<rparr>],
            [\<lparr>Depth = 0, Pages = [unvisited ''a'', unvisited ''b'', unvisited ''c'']\<rparr>]])"
  by (simp add: eval_nat_numeral loop_defs faulty_run_def)







end
